theory Spec2Isabelle
  imports Main "HOL-Library.Finite_Map" "HOL-Library.Char_ord" "HOL-Library.List_Lexorder"
begin

unbundle bit_operations_syntax

section \<open>Go values shared by the two packages\<close>

text \<open>
  A Go \<open>string\<close> and a Go \<open>[]byte\<close> are both sequences of 8-bit bytes, and the
  code converts freely between them (\<open>string(b)\<close>, \<open>[]byte(s)\<close>); both are modelled
  as \<open>string\<close>, a list of 8-bit \<open>char\<close>.
\<close>

type_synonym bytes = string

datatype errno = ENOENT | EACCES | EISDIR | EIO

text \<open>
  Go's \<open>error\<close> values, by the way they are built:
  \<open>errors.New\<close> and \<open>fmt.Errorf\<close> give an \<open>ErrorString\<close>,
  \<open>errors.Wrap err msg\<close> gives \<open>WithMessage err msg\<close>, the file system gives a
  \<open>PathError op path errno\<close>, and the base64 decoder a \<open>CorruptInputError\<close> with
  the offset of the offending input byte.
\<close>

datatype error =
    ErrorString string
  | WithMessage error string
  | PathError string string errno
  | CorruptInputError nat

definition digitChar :: "nat \<Rightarrow> char" where
  "digitChar d = char_of (48 + d)"

function itoa :: "nat \<Rightarrow> string" where
  "itoa n = (if n < 10 then [digitChar n] else itoa (n div 10) @ [digitChar (n mod 10)])"
  by pat_completeness auto
termination
  by (relation "measure id") auto

fun errnoString :: "errno \<Rightarrow> string" where
  "errnoString ENOENT = ''no such file or directory''"
| "errnoString EACCES = ''permission denied''"
| "errnoString EISDIR = ''is a directory''"
| "errnoString EIO = ''input/output error''"

text \<open>The \<open>Error()\<close> method, which \<open>fmt.Errorf\<close> with \<open>%v\<close> prints.\<close>

fun Error :: "error \<Rightarrow> string" where
  "Error (ErrorString s) = s"
| "Error (WithMessage err msg) = msg @ '': '' @ Error err"
| "Error (PathError op path e) = op @ '' '' @ path @ '': '' @ errnoString e"
| "Error (CorruptInputError n) = ''illegal base64 data at input byte '' @ itoa n"

text \<open>\<open>os.IsNotExist\<close>: true of a path error whose cause is \<open>ENOENT\<close>.\<close>

fun IsNotExist :: "error \<Rightarrow> bool" where
  "IsNotExist (PathError op path e) = (e = ENOENT)"
| "IsNotExist _ = False"

section \<open>\<open>encoding/base64\<close>, the standard encoding\<close>

text \<open>
  \<open>base64.StdEncoding\<close>: the alphabet of RFC 4648 with \<open>=\<close> padding, not strict.
  The decoder skips carriage returns and line feeds wherever they occur, wants the
  padding, and rejects anything after it.
\<close>

definition encodeStd :: string where
  "encodeStd = ''ABCDEFGHIJKLMNOPQRSTUVWXYZabcdefghijklmnopqrstuvwxyz0123456789+/''"

definition encode :: "nat \<Rightarrow> char" where
  "encode i = encodeStd ! i"

text \<open>
  The decode map is filled as the library fills it: every entry \<open>0xff\<close>, then entry
  \<open>encoder[i]\<close> set to \<open>i\<close>.
\<close>

primrec fillDecodeMap :: "string \<Rightarrow> nat \<Rightarrow> (char \<Rightarrow> nat) \<Rightarrow> (char \<Rightarrow> nat)" where
  "fillDecodeMap [] i m = m"
| "fillDecodeMap (c # cs) i m = fillDecodeMap cs (i + 1) (m(c := i))"

definition decodeMap :: "char \<Rightarrow> nat" where
  "decodeMap = fillDecodeMap encodeStd 0 (\<lambda>_. 0xff)"

text \<open>
  \<open>EncodeToString\<close>: three bytes give four characters; a rest of one or two bytes is
  padded. \<open>val\<close> is a Go \<open>uint\<close> below \<open>2 ^ 24\<close>, so no shift overflows.
\<close>

fun EncodeToString :: "bytes \<Rightarrow> string" where
  "EncodeToString (a # b # c # rest) =
     (let val = push_bit 16 (of_char a :: nat) OR push_bit 8 (of_char b) OR of_char c
      in encode (drop_bit 18 val AND 0x3F) # encode (drop_bit 12 val AND 0x3F)
         # encode (drop_bit 6 val AND 0x3F) # encode (val AND 0x3F) # EncodeToString rest)"
| "EncodeToString [a, b] =
     (let val = push_bit 16 (of_char a :: nat) OR push_bit 8 (of_char b)
      in [encode (drop_bit 18 val AND 0x3F), encode (drop_bit 12 val AND 0x3F),
          encode (drop_bit 6 val AND 0x3F), CHR ''=''])"
| "EncodeToString [a] =
     (let val = push_bit 16 (of_char a :: nat)
      in [encode (drop_bit 18 val AND 0x3F), encode (drop_bit 12 val AND 0x3F),
          CHR ''='', CHR ''=''])"
| "EncodeToString [] = []"

definition isNewline :: "char \<Rightarrow> bool" where
  "isNewline c = (c = CHR 0x0A \<or> c = CHR 0x0D)"

text \<open>
  \<open>dbuf\<close> is the decoder's buffer of the 6-bit values read so far in the current
  quantum (at most four); the entries not yet read are zero.
\<close>

definition dbufAt :: "nat list \<Rightarrow> nat \<Rightarrow> nat" where
  "dbufAt dbuf i = (if i < length dbuf then dbuf ! i else 0)"

definition assemble :: "nat \<Rightarrow> nat \<Rightarrow> nat \<Rightarrow> nat \<Rightarrow> nat" where
  "assemble d0 d1 d2 d3 = push_bit 18 d0 OR push_bit 12 d1 OR push_bit 6 d2 OR d3"

text \<open>A quantum of \<open>dlen\<close> characters gives \<open>dlen - 1\<close> bytes.\<close>

definition quantumBytes :: "nat list \<Rightarrow> bytes" where
  "quantumBytes dbuf =
     (let val = assemble (dbufAt dbuf 0) (dbufAt dbuf 1) (dbufAt dbuf 2) (dbufAt dbuf 3)
      in take (length dbuf - 1)
           [char_of (drop_bit 16 val), char_of (drop_bit 8 val), char_of val])"

text \<open>After the last padding character only newlines may follow.\<close>

definition afterPadding :: "nat \<Rightarrow> nat list \<Rightarrow> string \<Rightarrow> error + bytes" where
  "afterPadding si dbuf cs =
     (let skipped = takeWhile isNewline cs; rest = dropWhile isNewline cs
      in if rest \<noteq> [] then Inl (CorruptInputError (si + length skipped))
         else Inr (quantumBytes dbuf))"

text \<open>
  The decoding loop: \<open>si\<close> is the index of the next input byte, \<open>dbuf\<close> the current
  quantum. Input may end only between quanta.
\<close>

fun decodeLoop :: "nat \<Rightarrow> nat list \<Rightarrow> string \<Rightarrow> error + bytes" where
  "decodeLoop si dbuf [] =
     (if dbuf = [] then Inr [] else Inl (CorruptInputError (si - length dbuf)))"
| "decodeLoop si dbuf (c # cs) =
     (let out = decodeMap c in
      if out \<noteq> 0xff then
        (if length dbuf = 3 then
           (case decodeLoop (si + 1) [] cs of
              Inl e \<Rightarrow> Inl e
            | Inr rest \<Rightarrow> Inr (quantumBytes (dbuf @ [out]) @ rest))
         else decodeLoop (si + 1) (dbuf @ [out]) cs)
      else if isNewline c then decodeLoop (si + 1) dbuf cs
      else if c \<noteq> CHR ''='' then Inl (CorruptInputError si)
      else if length dbuf < 2 then Inl (CorruptInputError si)
      else if length dbuf = 2 then
        (let skipped = takeWhile isNewline cs; rest = dropWhile isNewline cs;
             si' = si + 1 + length skipped
         in case rest of
              [] \<Rightarrow> Inl (CorruptInputError si')
            | d # ds \<Rightarrow>
                if d \<noteq> CHR ''='' then Inl (CorruptInputError (si' - 1))
                else afterPadding (si' + 1) dbuf ds)
      else afterPadding (si + 1) dbuf cs)"

definition DecodeString :: "string \<Rightarrow> error + bytes" where
  "DecodeString s = decodeLoop 0 [] s"

section \<open>Package \<open>cli\<close>: \<open>verify-blob\<close>\<close>

subsection \<open>Keys and certificates\<close>

datatype ecdsa_PublicKey = EcdsaPublicKey (X: int) (Y: int)

datatype ecdsa_PrivateKey = EcdsaPrivateKey (Public: ecdsa_PublicKey) (D: int)

text \<open>
  The dynamic type of the \<open>PublicKey\<close> field of an \<open>x509.Certificate\<close>, an
  \<open>interface{}\<close>: one of the key types the parser knows, or nil.
\<close>

datatype crypto_PublicKey =
    RsaPublicKey int int
  | EcdsaKey ecdsa_PublicKey
  | Ed25519PublicKey bytes
  | NilPublicKey

fun dynamicType :: "crypto_PublicKey \<Rightarrow> string" where
  "dynamicType (RsaPublicKey n e) = ''*rsa.PublicKey''"
| "dynamicType (EcdsaKey k) = ''*ecdsa.PublicKey''"
| "dynamicType (Ed25519PublicKey b) = ''ed25519.PublicKey''"
| "dynamicType NilPublicKey = ''nil''"

record Certificate =
  Raw :: bytes
  CertPublicKey :: crypto_PublicKey
  SubjectCommonName :: string

text \<open>
  \<open>cosign.PublicKey\<close> is an interface; \<open>cosign.ECDSAPublicKey\<close> implements it,
  and the key loaders may return other implementations, named here by a handle.
\<close>

datatype PublicKey =
    ECDSAPublicKey ecdsa_PublicKey
  | OtherPublicKey string

datatype RekorClient = RekorClient string

subsection \<open>Collaborators\<close>

text \<open>
  What \<open>VerifyBlobCmd\<close> calls outside its own file: the file system, standard input,
  the key loaders, the certificate parser, the verifier, the trust validator and the
  transparency log. Each is a field of the environment of a run; a call that can fail
  returns \<open>Inl\<close> of its error. \<open>Stat\<close> returns its error or \<open>None\<close>.
  \<open>TrustedCert\<close> is already applied to \<open>fulcio.Roots\<close>.
\<close>

record env =
  LoadPublicKey :: "string \<Rightarrow> error + PublicKey"
  kmsGet :: "string \<Rightarrow> error + PublicKey"
  ReadFile :: "string \<Rightarrow> error + bytes"
  LoadCerts :: "string \<Rightarrow> error + Certificate list"
  Stat :: "string \<Rightarrow> error option"
  Clean :: "string \<Rightarrow> string"
  ReadStdin :: "error + bytes"
  Verify :: "PublicKey \<Rightarrow> bytes \<Rightarrow> bytes \<Rightarrow> error option"
  TrustedCert :: "Certificate \<Rightarrow> error option"
  Experimental :: bool
  TlogServer :: string
  GetRekorClient :: "string \<Rightarrow> error + RekorClient"
  PublicKeyPem :: "PublicKey \<Rightarrow> error + bytes"
  CertToPem :: "Certificate \<Rightarrow> bytes"
  FindTlogEntry :: "RekorClient \<Rightarrow> string \<Rightarrow> bytes \<Rightarrow> bytes \<Rightarrow> error + string"

text \<open>The calls a run makes to the outside world, in order.\<close>

datatype event =
    LoadPublicKeyCall string
  | KmsGetCall string
  | ReadFileCall string
  | StatCall string
  | ReadStdinCall
  | VerifyCall PublicKey bytes bytes
  | TrustedCertCall Certificate
  | Stderr string
  | GetRekorClientCall string
  | FindTlogEntryCall RekorClient string bytes bytes

text \<open>
  A step of the command ends in a value, in a returned error, or in a panic
  (a failed type assertion); with it comes the list of calls made.
\<close>

datatype panic = TypeAssertionError string string

datatype 'a step = Ok 'a | Err error | Panicked panic

type_synonym 'a io = "'a step \<times> event list"

definition ret :: "'a \<Rightarrow> 'a io" where
  "ret a = (Ok a, [])"

definition fail :: "error \<Rightarrow> 'a io" where
  "fail e = (Err e, [])"

definition call :: "event \<Rightarrow> error + 'a \<Rightarrow> 'a io" where
  "call ev r = (case r of Inl e \<Rightarrow> (Err e, [ev]) | Inr a \<Rightarrow> (Ok a, [ev]))"

definition check :: "event \<Rightarrow> error option \<Rightarrow> unit io" where
  "check ev r = (case r of Some e \<Rightarrow> (Err e, [ev]) | None \<Rightarrow> (Ok (), [ev]))"

definition emit :: "event \<Rightarrow> unit io" where
  "emit ev = (Ok (), [ev])"

text \<open>Sequencing: an error or a panic ends the run, as \<open>return err\<close> does.\<close>

definition bindIO :: "'a io \<Rightarrow> ('a \<Rightarrow> 'b io) \<Rightarrow> 'b io" where
  "bindIO m f =
     (case m of
        (Ok a, t) \<Rightarrow> (case f a of (r, t') \<Rightarrow> (r, t @ t'))
      | (Err e, t) \<Rightarrow> (Err e, t)
      | (Panicked p, t) \<Rightarrow> (Panicked p, t))"

subsection \<open>\<open>isb64\<close> and \<open>VerifyBlobCmd\<close>\<close>

definition isb64 :: "bytes \<Rightarrow> bool" where
  "isb64 data = (case DecodeString data of Inl err \<Rightarrow> False | Inr _ \<Rightarrow> True)"

text \<open>
  The \<open>switch\<close> that picks the key: the first non-empty reference in the order
  key, KMS, certificate. In certificate mode the leaf is \<open>certs[0]\<close> and its key
  goes through the unchecked assertion of \<open>cert.PublicKey\<close> to \<open>*ecdsa.PublicKey\<close>.
\<close>

definition selectKey :: "env \<Rightarrow> string \<Rightarrow> string \<Rightarrow> string \<Rightarrow> (PublicKey \<times> Certificate option) io" where
  "selectKey env keyRef kmsVal certRef =
     (if keyRef \<noteq> [] then
        bindIO (call (LoadPublicKeyCall keyRef) (LoadPublicKey env keyRef))
          (\<lambda>pubKey. ret (pubKey, None))
      else if kmsVal \<noteq> [] then
        (case kmsGet env kmsVal of
           Inl err \<Rightarrow> (Err (WithMessage err ''getting kms''), [KmsGetCall kmsVal])
         | Inr pubKey \<Rightarrow> (Ok (pubKey, None), [KmsGetCall kmsVal]))
      else if certRef \<noteq> [] then
        bindIO (call (ReadFileCall certRef) (ReadFile env certRef)) (\<lambda>pems.
          case LoadCerts env pems of
            Inl err \<Rightarrow> fail err
          | Inr certs \<Rightarrow>
              (case certs of
                 [] \<Rightarrow> fail (ErrorString ''no certs found in pem file'')
               | cert # _ \<Rightarrow>
                   (case CertPublicKey cert of
                      EcdsaKey k \<Rightarrow> ret (ECDSAPublicKey k, Some cert)
                    | other \<Rightarrow>
                        (Panicked (TypeAssertionError (dynamicType other) ''*ecdsa.PublicKey''),
                         []))))
      else fail (ErrorString ''one of -key and -cert required''))"

text \<open>
  The signature reference: a path if \<open>os.Stat\<close> finds it, else (only for a
  not-exist error) the base64 text itself. File contents that decode as base64 are
  taken as they are, others are encoded.
\<close>

definition signatureB64 :: "env \<Rightarrow> string \<Rightarrow> string io" where
  "signatureB64 env sigRef =
     (case Stat env sigRef of
        Some err \<Rightarrow>
          if IsNotExist err then (Ok sigRef, [StatCall sigRef])
          else (Err err, [StatCall sigRef])
      | None \<Rightarrow>
          bindIO (emit (StatCall sigRef)) (\<lambda>_.
          bindIO (call (ReadFileCall (Clean env sigRef)) (ReadFile env (Clean env sigRef)))
            (\<lambda>b. if isb64 b then ret b else ret (EncodeToString b))))"

definition readBlob :: "env \<Rightarrow> string \<Rightarrow> bytes io" where
  "readBlob env blobRef =
     (if blobRef = ''-'' then call ReadStdinCall (ReadStdin env)
      else call (ReadFileCall (Clean env blobRef)) (ReadFile env (Clean env blobRef)))"

text \<open>The trust-chain check, made when \<open>cert != nil\<close>.\<close>

definition trustChain :: "env \<Rightarrow> Certificate option \<Rightarrow> unit io" where
  "trustChain env cert =
     (case cert of
        None \<Rightarrow> ret ()
      | Some c \<Rightarrow>
          bindIO (check (TrustedCertCall c) (TrustedCert env c)) (\<lambda>_.
          bindIO (emit (Stderr ''Certificate is trusted by Fulcio Root CA\<newline>'')) (\<lambda>_.
          emit (Stderr (''Email: '' @ SubjectCommonName c @ ''\<newline>'')))))"

text \<open>The transparency-log lookup, made when \<open>cosign.Experimental()\<close>.\<close>

definition tlogCheck :: "env \<Rightarrow> PublicKey \<Rightarrow> Certificate option \<Rightarrow> string \<Rightarrow> bytes \<Rightarrow> unit io" where
  "tlogCheck env pubKey cert b64sig blobBytes =
     (if Experimental env then
        bindIO (call (GetRekorClientCall (TlogServer env)) (GetRekorClient env (TlogServer env)))
          (\<lambda>rekorClient.
        case PublicKeyPem env pubKey of
          Inl err \<Rightarrow> fail err
        | Inr pem \<Rightarrow>
            (let pubBytes = (case cert of None \<Rightarrow> pem | Some c \<Rightarrow> CertToPem env c) in
             bindIO (call (FindTlogEntryCall rekorClient b64sig blobBytes pubBytes)
                       (FindTlogEntry env rekorClient b64sig blobBytes pubBytes))
               (\<lambda>index. emit (Stderr (''tlog entry verified with index:  '' @ index @ ''\<newline>'')))))
      else ret ())"

text \<open>Decode, verify, trust chain, transparency log: the end of the function.\<close>

definition verifyAndCheck :: "env \<Rightarrow> PublicKey \<Rightarrow> Certificate option \<Rightarrow> string \<Rightarrow> bytes \<Rightarrow> unit io" where
  "verifyAndCheck env pubKey cert b64sig blobBytes =
     (case DecodeString b64sig of
        Inl err \<Rightarrow> fail err
      | Inr sig \<Rightarrow>
          bindIO (check (VerifyCall pubKey blobBytes sig) (Verify env pubKey blobBytes sig)) (\<lambda>_.
          bindIO (trustChain env cert) (\<lambda>_.
          bindIO (emit (Stderr ''Verified OK\<newline>'')) (\<lambda>_.
          tlogCheck env pubKey cert b64sig blobBytes))))"

definition VerifyBlobCmd :: "env \<Rightarrow> string \<Rightarrow> string \<Rightarrow> string \<Rightarrow> string \<Rightarrow> string \<Rightarrow> unit io" where
  "VerifyBlobCmd env keyRef kmsVal certRef sigRef blobRef =
     bindIO (selectKey env keyRef kmsVal certRef) (\<lambda>(pubKey, cert).
     bindIO (signatureB64 env sigRef) (\<lambda>b64sig.
     bindIO (readBlob env blobRef) (\<lambda>blobBytes.
     verifyAndCheck env pubKey cert b64sig blobBytes)))"

section \<open>Package \<open>cosign\<close>: \<open>sign.go\<close>\<close>

definition pemType :: string where
  "pemType = ''ENCRYPTED COSIGN PRIVATE KEY''"

record pem_Block =
  Type :: string
  Bytes :: bytes

text \<open>The dynamic type of what \<open>x509.ParsePKCS8PrivateKey\<close> returns.\<close>

datatype crypto_PrivateKey =
    RsaPrivateKey int int
  | EcdsaPrivKey ecdsa_PrivateKey
  | Ed25519PrivateKey bytes

text \<open>
  What \<open>LoadPrivateKey\<close> calls: \<open>pem.Decode\<close> (the first block, or nil),
  \<open>encrypted.Decrypt\<close>, \<open>x509.ParsePKCS8PrivateKey\<close>, and the constructor
  \<open>WithECDSAKey\<close> of the key type \<open>'k\<close>.
\<close>

record 'k keylib =
  pemDecode :: "bytes \<Rightarrow> pem_Block option"
  Decrypt :: "bytes \<Rightarrow> bytes \<Rightarrow> error + bytes"
  ParsePKCS8PrivateKey :: "bytes \<Rightarrow> error + crypto_PrivateKey"
  WithECDSAKey :: "ecdsa_PrivateKey \<Rightarrow> 'k"

definition LoadPrivateKey :: "'k keylib \<Rightarrow> bytes \<Rightarrow> bytes \<Rightarrow> error + 'k" where
  "LoadPrivateKey lib key pass =
     (case pemDecode lib key of
        None \<Rightarrow> Inl (ErrorString ''invalid pem block'')
      | Some p \<Rightarrow>
          if Type p \<noteq> pemType then Inl (ErrorString (''unsupported pem type: '' @ Type p))
          else
            (case Decrypt lib (Bytes p) pass of
               Inl err \<Rightarrow> Inl (WithMessage err ''decrypt'')
             | Inr x509Encoded \<Rightarrow>
                 (case ParsePKCS8PrivateKey lib x509Encoded of
                    Inl err \<Rightarrow> Inl (WithMessage err ''parsing private key'')
                  | Inr pk \<Rightarrow>
                      (case pk of
                         EcdsaPrivKey epk \<Rightarrow> Inr (WithECDSAKey lib epk)
                       | _ \<Rightarrow> Inl (ErrorString ''invalid private key'')))))"





text \<open>\<open>v1.Descriptor\<close> of go-containerregistry, with the fields a payload is built from.\<close>

record v1_Descriptor =
  MediaType :: string
  Size :: int
  Digest :: string

record ImagePayload =
  Img :: v1_Descriptor
  Annotations :: "(string, string) fmap"

text \<open>A \<open>Signer\<close> is its \<open>Sign\<close> method.\<close>

type_synonym Signer = "bytes \<Rightarrow> error + bytes"

definition PayloadSignature :: "Signer \<Rightarrow> bytes \<Rightarrow> error + bytes" where
  "PayloadSignature signer payload =
     (case signer payload of
        Inl err \<Rightarrow> Inl (ErrorString (''failed to create signature: '' @ Error err))
      | Inr signature \<Rightarrow> Inr signature)"

text \<open>
  \<open>ImageSignature\<close>; \<open>MarshalJSON\<close> of \<open>ImagePayload\<close> is the parameter
  \<open>marshal\<close>.
\<close>

definition ImageSignature ::
  "(ImagePayload \<Rightarrow> error + bytes) \<Rightarrow> Signer \<Rightarrow> v1_Descriptor \<Rightarrow> (string, string) fmap
     \<Rightarrow> error + (bytes \<times> bytes)" where
  "ImageSignature marshal signer img payloadAnnotations =
     (let signable = \<lparr>Img = img, Annotations = payloadAnnotations\<rparr> in
      case marshal signable of
        Inl err \<Rightarrow> Inl (ErrorString (''failed to create image signature payload: '' @ Error err))
      | Inr payload \<Rightarrow>
          (case PayloadSignature signer payload of
             Inl err \<Rightarrow> Inl err
           | Inr signature \<Rightarrow> Inr (payload, signature)))"

section \<open>The payload codec\<close>































section \<open>Vocabulary of the claims\<close>

text \<open>
  The signature bytes the command verifies when the signature file holds \<open>b\<close>: the
  contents are kept if they decode as base64 and encoded otherwise (lines 136 to 140),
  then decoded (line 153).
\<close>

definition fileSignature :: "bytes \<Rightarrow> error + bytes" where
  "fileSignature b = DecodeString (if isb64 b then b else EncodeToString b)"

text \<open>The calls of the three checks: verification, trust chain, transparency log.\<close>

fun isVerifyCall :: "event \<Rightarrow> bool" where
  "isVerifyCall (VerifyCall k b s) = True"
| "isVerifyCall _ = False"

fun isTrustedCertCall :: "event \<Rightarrow> bool" where
  "isTrustedCertCall (TrustedCertCall c) = True"
| "isTrustedCertCall _ = False"

fun isTlogCall :: "event \<Rightarrow> bool" where
  "isTlogCall (GetRekorClientCall s) = True"
| "isTlogCall (FindTlogEntryCall c s b p) = True"
| "isTlogCall _ = False"

definition isCheck :: "event \<Rightarrow> bool" where
  "isCheck ev = (isVerifyCall ev \<or> isTrustedCertCall ev \<or> isTlogCall ev)"

section \<open>Test doubles\<close>

text \<open>
  In-memory collaborators for concrete runs: a key file, three certificate bundles
  (an ECDSA leaf followed by an RSA certificate, an RSA leaf alone, and no certificate),
  a signature file with base64 text and one with the raw bytes, and a verifier that
  accepts the signature \<open>hi\<close> only.
\<close>

definition leafCert :: Certificate where
  "leafCert = \<lparr>Raw = ''leaf-der'', CertPublicKey = EcdsaKey (EcdsaPublicKey 1 2),
                SubjectCommonName = ''dev@example.com''\<rparr>"

definition rsaCert :: Certificate where
  "rsaCert = \<lparr>Raw = ''rsa-der'', CertPublicKey = RsaPublicKey 3233 17,
               SubjectCommonName = ''ops@example.com''\<rparr>"

definition testEnv :: env where
  "testEnv = \<lparr>
     LoadPublicKey = (\<lambda>p. if p = ''cosign.pub'' \<or> p = ''testLocalPath''
                           then Inr (OtherPublicKey p)
                           else Inl (PathError ''open'' p ENOENT)),
     kmsGet = (\<lambda>r. Inr (OtherPublicKey r)),
     ReadFile = (\<lambda>p. if p = ''certs.pem'' then Inr ''ecdsa+rsa''
                      else if p = ''rsa.pem'' then Inr ''rsa''
                      else if p = ''empty.pem'' then Inr []
                      else if p = ''sig.b64'' then Inr ''aGk=''
                      else if p = ''sig.raw'' then Inr ''hi''
                      else if p = ''msg'' then Inr ''blob''
                      else Inl (PathError ''open'' p ENOENT)),
     LoadCerts = (\<lambda>pems. if pems = ''ecdsa+rsa'' then Inr [leafCert, rsaCert]
                          else if pems = ''rsa'' then Inr [rsaCert]
                          else Inr []),
     Stat = (\<lambda>p. if p = ''sig.b64'' \<or> p = ''sig.raw'' then None
                  else if p = ''locked'' then Some (PathError ''stat'' p EACCES)
                  else Some (PathError ''stat'' p ENOENT)),
     Clean = (\<lambda>p. p),
     ReadStdin = Inr ''blob'',
     Verify = (\<lambda>k b s. if s = ''hi'' then None
                        else Some (ErrorString ''invalid signature when validating ASN.1 encoded signature'')),
     TrustedCert = (\<lambda>c. if c = leafCert then None
                         else Some (ErrorString ''x509: certificate signed by unknown authority'')),
     Experimental = False,
     TlogServer = ''https://api.rekor.dev'',
     GetRekorClient = (\<lambda>s. Inr (RekorClient s)),
     PublicKeyPem = (\<lambda>k. Inr ''PUBLIC KEY''),
     CertToPem = Raw,
     FindTlogEntry = (\<lambda>c s b p. Inl (ErrorString ''entry not found''))\<rparr>"

definition testKey :: ecdsa_PrivateKey where
  "testKey = EcdsaPrivateKey (EcdsaPublicKey 1 2) 3"

definition testLib :: "ecdsa_PrivateKey keylib" where
  "testLib = \<lparr>
     pemDecode = (\<lambda>key. if key = ''cosign.key'' then Some \<lparr>Type = pemType, Bytes = ''ciphertext''\<rparr>
                         else None),
     Decrypt = (\<lambda>ct pass. if pass = ''hunter2'' then Inr ''pkcs8''
                           else Inl (ErrorString ''encrypted: decryption failed'')),
     ParsePKCS8PrivateKey = (\<lambda>der. Inr (EcdsaPrivKey testKey)),
     WithECDSAKey = (\<lambda>k. k)\<rparr>"

definition testSigner :: Signer where
  "testSigner payload = Inr (''sig:'' @ payload)"

definition testMarshal :: "ImagePayload \<Rightarrow> error + bytes" where
  "testMarshal p = Inr (Digest (Img p))"

definition testImg :: v1_Descriptor where
  "testImg = \<lparr>MediaType = ''application/vnd.oci.image.manifest.v1+json'', Size = 42,
              Digest = ''sha256:abc''\<rparr>"


section \<open>Base64: decoding undoes encoding\<close>

lemma fillDecodeMap_notin:
  "c \<notin> set cs \<Longrightarrow> fillDecodeMap cs i m c = m c"
  by (induction cs arbitrary: i m) auto

lemma fillDecodeMap_nth:
  "distinct cs \<Longrightarrow> k < length cs \<Longrightarrow> fillDecodeMap cs i m (cs ! k) = i + k"
proof (induction cs arbitrary: i m k)
  case Nil
  then show ?case by simp
next
  case (Cons c cs)
  show ?case
  proof (cases k)
    case 0
    with Cons.prems show ?thesis by (simp add: fillDecodeMap_notin)
  next
    case (Suc k')
    with Cons.prems Cons.IH [of k' "i + 1" "m(c := i)"] show ?thesis by (simp add: fun_upd_def)
  qed
qed

lemma distinct_encodeStd: "distinct encodeStd"
  by (simp add: encodeStd_def)

lemma length_encodeStd: "length encodeStd = 64"
  by (simp add: encodeStd_def)

lemma decodeMap_encode: "i < 64 \<Longrightarrow> decodeMap (encode i) = i"
  using fillDecodeMap_nth [OF distinct_encodeStd, of i 0]
  by (simp add: decodeMap_def encode_def length_encodeStd)


lemma n63: "(63::nat) = mask 6"
  by (simp add: mask_eq_exp_minus_1)

lemma and_63_less: "(x :: nat) AND 0x3F < 64"
  by (simp add: n63 take_bit_eq_mod flip: take_bit_eq_mask)

lemma bit_of_char_nat: "bit (of_char c :: nat) j \<Longrightarrow> j < 8"
proof -
  assume b: "bit (of_char c :: nat) j"
  have "of_char c = take_bit 8 (of_char c :: nat)" by (simp add: take_bit_eq_mod)
  with b have "bit (take_bit 8 (of_char c :: nat)) j" by simp
  then show ?thesis by (simp add: bit_take_bit_iff)
qed

lemma sextets_ident:
  "assemble (drop_bit 18 v AND 0x3F) (drop_bit 12 v AND 0x3F)
            (drop_bit 6 v AND 0x3F) (v AND 0x3F) = take_bit 24 v"
proof (rule bit_eqI)
  fix n :: nat
  consider "n < 6" | "6 \<le> n \<and> n < 12" | "12 \<le> n \<and> n < 18"
    | "18 \<le> n \<and> n < 24" | "24 \<le> n"
    by linarith
  then show "bit (assemble (drop_bit 18 v AND 0x3F) (drop_bit 12 v AND 0x3F)
                    (drop_bit 6 v AND 0x3F) (v AND 0x3F)) n = bit (take_bit 24 v) n"
    by cases (auto simp add: assemble_def n63 bit_simps)
qed


lemma val3_bytes:
  fixes a b c :: char
  defines "val \<equiv> push_bit 16 (of_char a :: nat) OR push_bit 8 (of_char b) OR of_char c"
  shows "char_of (drop_bit 16 (take_bit 24 val)) = a"
    and "char_of (drop_bit 8 (take_bit 24 val)) = b"
    and "char_of (take_bit 24 val) = c"
    apply (simp_all add: char_of_eq_iff val_def)
    apply (rule bit_eqI; auto simp add: bit_simps dest: bit_of_char_nat)+
  done

lemma val2_bytes:
  fixes a b :: char
  defines "val \<equiv> push_bit 16 (of_char a :: nat) OR push_bit 8 (of_char b)"
  shows "char_of (drop_bit 16 (take_bit 24 val)) = a"
    and "char_of (drop_bit 8 (take_bit 24 val)) = b"
    and "val AND 0x3F = 0"
    apply (simp_all add: char_of_eq_iff val_def)
    apply (rule bit_eqI; auto simp add: n63 bit_simps dest: bit_of_char_nat)+
  done

lemma val1_bytes:
  fixes a :: char
  defines "val \<equiv> push_bit 16 (of_char a :: nat)"
  shows "char_of (drop_bit 16 (take_bit 24 val)) = a"
    and "drop_bit 6 val AND 0x3F = 0"
    and "val AND 0x3F = 0"
    apply (simp_all add: char_of_eq_iff val_def)
    apply (rule bit_eqI; auto simp add: n63 bit_simps dest: bit_of_char_nat)+
  done

lemma quantum3:
  fixes a b c :: char
  defines "val \<equiv> push_bit 16 (of_char a :: nat) OR push_bit 8 (of_char b) OR of_char c"
  shows "quantumBytes [drop_bit 18 val AND 0x3F, drop_bit 12 val AND 0x3F,
                       drop_bit 6 val AND 0x3F, val AND 0x3F] = [a, b, c]"
proof -
  have "quantumBytes [drop_bit 18 val AND 0x3F, drop_bit 12 val AND 0x3F,
                       drop_bit 6 val AND 0x3F, val AND 0x3F]
        = [char_of (drop_bit 16 (take_bit 24 val)), char_of (drop_bit 8 (take_bit 24 val)),
           char_of (take_bit 24 val)]"
    unfolding quantumBytes_def dbufAt_def by (simp add: sextets_ident Let_def)
  then show ?thesis
    unfolding val_def by (simp only: val3_bytes)
qed


lemma quantum2:
  fixes a b :: char
  defines "val \<equiv> push_bit 16 (of_char a :: nat) OR push_bit 8 (of_char b)"
  shows "quantumBytes [drop_bit 18 val AND 0x3F, drop_bit 12 val AND 0x3F,
                       drop_bit 6 val AND 0x3F] = [a, b]"
proof -
  have z: "val AND 0x3F = 0"
    unfolding val_def by (rule val2_bytes)
  have "assemble (drop_bit 18 val AND 0x3F) (drop_bit 12 val AND 0x3F)
            (drop_bit 6 val AND 0x3F) 0 = take_bit 24 val"
    using sextets_ident [of val] by (simp only: z)
  then have "quantumBytes [drop_bit 18 val AND 0x3F, drop_bit 12 val AND 0x3F,
                       drop_bit 6 val AND 0x3F]
        = [char_of (drop_bit 16 (take_bit 24 val)), char_of (drop_bit 8 (take_bit 24 val))]"
    unfolding quantumBytes_def dbufAt_def by (simp add: Let_def)
  then show ?thesis
    unfolding val_def by (simp only: val2_bytes)
qed

lemma quantum1:
  fixes a :: char
  defines "val \<equiv> push_bit 16 (of_char a :: nat)"
  shows "quantumBytes [drop_bit 18 val AND 0x3F, drop_bit 12 val AND 0x3F] = [a]"
proof -
  have z: "val AND 0x3F = 0" "drop_bit 6 val AND 0x3F = 0"
    unfolding val_def by (rule val1_bytes)+
  have "assemble (drop_bit 18 val AND 0x3F) (drop_bit 12 val AND 0x3F) 0 0 = take_bit 24 val"
    using sextets_ident [of val] by (simp only: z)
  then have "quantumBytes [drop_bit 18 val AND 0x3F, drop_bit 12 val AND 0x3F]
        = [char_of (drop_bit 16 (take_bit 24 val))]"
    unfolding quantumBytes_def dbufAt_def by (simp add: Let_def)
  then show ?thesis
    unfolding val_def by (simp only: val1_bytes)
qed

lemma decodeMap_sextet [simp]: "decodeMap (encode (x AND 0x3F)) = x AND 0x3F"
  by (rule decodeMap_encode) (rule and_63_less)

lemma sextet_not_ff [simp]: "(x::nat) AND 0x3F \<noteq> 255"
  using and_63_less [of x] by simp

lemma decodeMap_pad: "decodeMap CHR ''='' = 0xff"
  by (simp add: decodeMap_def encodeStd_def)

lemma afterPadding_Nil: "afterPadding si dbuf [] = Inr (quantumBytes dbuf)"
  by (simp add: afterPadding_def)

lemma decode_encode: "decodeLoop si [] (EncodeToString s) = Inr s"
proof (induction s arbitrary: si rule: EncodeToString.induct)
  case (1 a b c rest)
  define val where "val = push_bit 16 (of_char a :: nat) OR push_bit 8 (of_char b) OR of_char c"
  have enc: "EncodeToString (a # b # c # rest) =
      encode (drop_bit 18 val AND 0x3F) # encode (drop_bit 12 val AND 0x3F)
      # encode (drop_bit 6 val AND 0x3F) # encode (val AND 0x3F) # EncodeToString rest"
    by (simp add: val_def Let_def)
  have q: "quantumBytes [drop_bit 18 val AND 0x3F, drop_bit 12 val AND 0x3F,
                       drop_bit 6 val AND 0x3F, val AND 0x3F] = [a, b, c]"
    unfolding val_def by (rule quantum3)
  show ?case
    unfolding enc by (simp add: Let_def "1.IH" q)
next
  case (2 a b)
  define val where "val = push_bit 16 (of_char a :: nat) OR push_bit 8 (of_char b)"
  have enc: "EncodeToString [a, b] =
      [encode (drop_bit 18 val AND 0x3F), encode (drop_bit 12 val AND 0x3F),
       encode (drop_bit 6 val AND 0x3F), CHR ''='']"
    by (simp add: val_def Let_def)
  have q: "quantumBytes [drop_bit 18 val AND 0x3F, drop_bit 12 val AND 0x3F,
                       drop_bit 6 val AND 0x3F] = [a, b]"
    unfolding val_def by (rule quantum2)
  show ?case
    unfolding enc by (simp add: Let_def q decodeMap_pad isNewline_def afterPadding_Nil)
next
  case (3 a)
  define val where "val = push_bit 16 (of_char a :: nat)"
  have enc: "EncodeToString [a] =
      [encode (drop_bit 18 val AND 0x3F), encode (drop_bit 12 val AND 0x3F),
       CHR ''='', CHR ''='']"
    by (simp add: val_def Let_def)
  have q: "quantumBytes [drop_bit 18 val AND 0x3F, drop_bit 12 val AND 0x3F] = [a]"
    unfolding val_def by (rule quantum1)
  show ?case
    unfolding enc by (simp add: Let_def q decodeMap_pad isNewline_def afterPadding_Nil)
next
  case 4
  show ?case by simp
qed

lemma DecodeString_EncodeToString: "DecodeString (EncodeToString s) = Inr s"
  by (simp add: DecodeString_def decode_encode)

lemma decodeMap_values:
  "decodeMap CHR ''a'' = 26" "decodeMap CHR ''G'' = 6" "decodeMap CHR ''k'' = 36"
  "decodeMap CHR ''='' = 0xff" "decodeMap CHR ''A'' = 0" "decodeMap CHR ''h'' = 33"
  "decodeMap CHR ''i'' = 34"
  by (simp_all add: decodeMap_def encodeStd_def)

lemma DecodeString_aGk: "DecodeString ''aGk='' = Inr ''hi''"
  by (simp add: DecodeString_def decodeMap_values quantumBytes_def dbufAt_def assemble_def
      afterPadding_def isNewline_def char_of_def bit_Suc_0_iff)

lemma DecodeString_hi: "DecodeString ''hi'' = Inl (CorruptInputError 0)"
  by (simp add: DecodeString_def decodeMap_values)

lemma isb64_EncodeToString: "isb64 (EncodeToString s)"
  by (simp add: isb64_def DecodeString_EncodeToString)

lemma EncodeToString_AAAA: "EncodeToString ''AAAA'' = ''QUFBQQ==''"
  by (simp add: encode_def encodeStd_def)

lemma DecodeString_AAAA: "DecodeString ''AAAA'' = Inr [CHR 0x00, CHR 0x00, CHR 0x00]"
  by (simp add: DecodeString_def decodeMap_values quantumBytes_def dbufAt_def assemble_def
      char_of_def)

section \<open>Runs of \<open>VerifyBlobCmd\<close>\<close>

lemmas io_defs = bindIO_def call_def check_def emit_def ret_def fail_def

lemma stages_ignore_LoadCerts:
  "signatureB64 (env\<lparr>LoadCerts := f\<rparr>) sigRef = signatureB64 env sigRef"
  "readBlob (env\<lparr>LoadCerts := f\<rparr>) blobRef = readBlob env blobRef"
  "verifyAndCheck (env\<lparr>LoadCerts := f\<rparr>) pubKey cert b64sig blobBytes
     = verifyAndCheck env pubKey cert b64sig blobBytes"
  by (simp_all add: signatureB64_def readBlob_def verifyAndCheck_def trustChain_def tlogCheck_def
      cong: option.case_cong sum.case_cong)

lemma selectKey_cert_mode:
  assumes "certRef \<noteq> []" and "ReadFile env certRef = Inr pems"
  shows "LoadCerts env pems = Inr [] \<Longrightarrow>
           selectKey env [] [] certRef =
             (Err (ErrorString ''no certs found in pem file''), [ReadFileCall certRef])"
    and "LoadCerts env pems = Inr (cert # rest) \<Longrightarrow>
           selectKey env [] [] certRef =
             selectKey (env\<lparr>LoadCerts := \<lambda>_. Inr [cert]\<rparr>) [] [] certRef"
    and "LoadCerts env pems = Inr (cert # rest) \<Longrightarrow> CertPublicKey cert = EcdsaKey k \<Longrightarrow>
           selectKey env [] [] certRef = (Ok (ECDSAPublicKey k, Some cert), [ReadFileCall certRef])"
  using assms by (simp_all add: selectKey_def io_defs)

lemma testEnv_stages:
  "selectKey testEnv ''testLocalPath'' ''testKmsVal'' [] =
     (Ok (OtherPublicKey ''testLocalPath'', None), [LoadPublicKeyCall ''testLocalPath''])"
  "selectKey testEnv [] [] ''certs.pem'' =
     (Ok (ECDSAPublicKey (EcdsaPublicKey 1 2), Some leafCert), [ReadFileCall ''certs.pem''])"
  "signatureB64 testEnv ''aGk='' = (Ok ''aGk='', [StatCall ''aGk=''])"
  "readBlob testEnv ''msg'' = (Ok ''blob'', [ReadFileCall ''msg''])"
  by (simp_all add: selectKey_def signatureB64_def readBlob_def io_defs testEnv_def leafCert_def)

lemma testEnv_verify:
  "verifyAndCheck testEnv (OtherPublicKey ''testLocalPath'') None ''aGk='' ''blob'' =
     (Ok (), [VerifyCall (OtherPublicKey ''testLocalPath'') ''blob'' ''hi'',
              Stderr ''Verified OK\<newline>''])"
  "verifyAndCheck testEnv (ECDSAPublicKey (EcdsaPublicKey 1 2)) (Some leafCert) ''aGk='' ''blob'' =
     (Ok (), [VerifyCall (ECDSAPublicKey (EcdsaPublicKey 1 2)) ''blob'' ''hi'',
              TrustedCertCall leafCert,
              Stderr ''Certificate is trusted by Fulcio Root CA\<newline>'',
              Stderr ''Email: dev@example.com\<newline>'',
              Stderr ''Verified OK\<newline>''])"
  by (simp_all add: verifyAndCheck_def trustChain_def tlogCheck_def io_defs DecodeString_aGk
      testEnv_def)
    (simp add: leafCert_def)

lemma testEnv_cert_run:
  "VerifyBlobCmd testEnv [] [] ''certs.pem'' ''aGk='' ''msg'' =
       (Ok (), [ReadFileCall ''certs.pem'', StatCall ''aGk='', ReadFileCall ''msg'',
                VerifyCall (ECDSAPublicKey (EcdsaPublicKey 1 2)) ''blob'' ''hi'',
                TrustedCertCall leafCert,
                Stderr ''Certificate is trusted by Fulcio Root CA\<newline>'',
                Stderr ''Email: dev@example.com\<newline>'',
                Stderr ''Verified OK\<newline>''])"
  by (simp add: VerifyBlobCmd_def testEnv_stages testEnv_verify bindIO_def)

lemma VerifyBlobCmd_none_selected:
  "VerifyBlobCmd env [] [] [] sigRef blobRef =
     (Err (ErrorString ''one of -key and -cert required''), [])"
  by (simp add: VerifyBlobCmd_def selectKey_def io_defs)

section \<open>Key selection\<close>

text \<open>
  C1: the claim is that naming more than one of key, KMS reference and certificate (or
  none) fails with the configuration error before any I/O. With none named the command
  does return \<open>one of -key and -cert required\<close> without a single call
  (\<open>VerifyBlobCmd_none_selected\<close>). With a key path and a KMS reference both named,
  as in the test of the signing command, the \<open>switch\<close> takes its first case: in every
  environment the first call of the run is the key loader on the key path, and with the
  test doubles the run goes on to verify and returns nil.
\<close>

theorem VerifyBlobCmd_key_and_kms:
  "(\<exists>r t. VerifyBlobCmd env ''testLocalPath'' ''testKmsVal'' certRef sigRef blobRef
            = (r, LoadPublicKeyCall ''testLocalPath'' # t))
   \<and> VerifyBlobCmd testEnv ''testLocalPath'' ''testKmsVal'' [] ''aGk='' ''msg'' =
       (Ok (), [LoadPublicKeyCall ''testLocalPath'', StatCall ''aGk='', ReadFileCall ''msg'',
                VerifyCall (OtherPublicKey ''testLocalPath'') ''blob'' ''hi'',
                Stderr ''Verified OK\<newline>''])"
proof
  show "\<exists>r t. VerifyBlobCmd env ''testLocalPath'' ''testKmsVal'' certRef sigRef blobRef
            = (r, LoadPublicKeyCall ''testLocalPath'' # t)"
    by (auto simp add: VerifyBlobCmd_def selectKey_def io_defs
        split: sum.splits prod.splits step.splits)
  show "VerifyBlobCmd testEnv ''testLocalPath'' ''testKmsVal'' [] ''aGk='' ''msg'' =
       (Ok (), [LoadPublicKeyCall ''testLocalPath'', StatCall ''aGk='', ReadFileCall ''msg'',
                VerifyCall (OtherPublicKey ''testLocalPath'') ''blob'' ''hi'',
                Stderr ''Verified OK\<newline>''])"
    by (simp add: VerifyBlobCmd_def testEnv_stages testEnv_verify bindIO_def)
qed

text \<open>
  C4: the claim is that a leaf certificate whose public key is not an ECDSA key makes
  verification return an ordinary error. The code asserts the type without the
  two-value form, so the run panics: after reading the bundle it ends in a
  \<open>TypeAssertionError\<close>, whatever the other key type is (RSA, Ed25519 or nil).
\<close>

theorem VerifyBlobCmd_non_ecdsa_leaf_panics:
  assumes "certRef \<noteq> []" and "ReadFile env certRef = Inr pems"
    and "LoadCerts env pems = Inr (cert # rest)"
    and "\<forall>k. CertPublicKey cert \<noteq> EcdsaKey k"
  shows "VerifyBlobCmd env [] [] certRef sigRef blobRef =
           (Panicked (TypeAssertionError (dynamicType (CertPublicKey cert)) ''*ecdsa.PublicKey''),
            [ReadFileCall certRef])"
  using assms
  by (cases "CertPublicKey cert") (simp_all add: VerifyBlobCmd_def selectKey_def io_defs)

theorem VerifyBlobCmd_non_ecdsa_leaf_panics_witness:
  "VerifyBlobCmd testEnv [] [] ''rsa.pem'' ''aGk='' ''msg'' =
     (Panicked (TypeAssertionError ''*rsa.PublicKey'' ''*ecdsa.PublicKey''),
      [ReadFileCall ''rsa.pem''])"
  using VerifyBlobCmd_non_ecdsa_leaf_panics [of "''rsa.pem''" testEnv "''rsa''" rsaCert "[]" "''aGk=''" "''msg''"]
  by (simp add: testEnv_def rsaCert_def)

text \<open>
  C7: in certificate mode, when the bundle holds no certificate the command returns the
  error \<open>no certs found in pem file\<close> (the format error) after reading the file and
  nothing else; when it holds at least one, the run is the same as with the first
  certificate alone, and with an ECDSA leaf that first certificate and its key are what
  the rest of the command works with.
\<close>

theorem VerifyBlobCmd_cert_leaf:
  assumes "certRef \<noteq> []" and "ReadFile env certRef = Inr pems"
  shows "(LoadCerts env pems = Inr [] \<longrightarrow>
            VerifyBlobCmd env [] [] certRef sigRef blobRef =
              (Err (ErrorString ''no certs found in pem file''), [ReadFileCall certRef]))
       \<and> (LoadCerts env pems = Inr (cert # rest) \<longrightarrow>
            VerifyBlobCmd env [] [] certRef sigRef blobRef =
              VerifyBlobCmd (env\<lparr>LoadCerts := \<lambda>_. Inr [cert]\<rparr>) [] [] certRef sigRef blobRef)
       \<and> (LoadCerts env pems = Inr (cert # rest) \<and> CertPublicKey cert = EcdsaKey k \<longrightarrow>
            VerifyBlobCmd env [] [] certRef sigRef blobRef =
              bindIO (emit (ReadFileCall certRef)) (\<lambda>_.
              bindIO (signatureB64 env sigRef) (\<lambda>b64sig.
              bindIO (readBlob env blobRef) (\<lambda>blobBytes.
              verifyAndCheck env (ECDSAPublicKey k) (Some cert) b64sig blobBytes))))"
proof (intro conjI impI)
  assume "LoadCerts env pems = Inr []"
  then show "VerifyBlobCmd env [] [] certRef sigRef blobRef =
      (Err (ErrorString ''no certs found in pem file''), [ReadFileCall certRef])"
    using selectKey_cert_mode(1) [OF assms] by (simp add: VerifyBlobCmd_def bindIO_def)
next
  assume "LoadCerts env pems = Inr (cert # rest)"
  then show "VerifyBlobCmd env [] [] certRef sigRef blobRef =
      VerifyBlobCmd (env\<lparr>LoadCerts := \<lambda>_. Inr [cert]\<rparr>) [] [] certRef sigRef blobRef"
    using selectKey_cert_mode(2) [OF assms, of cert rest]
    by (simp add: VerifyBlobCmd_def stages_ignore_LoadCerts)
next
  assume "LoadCerts env pems = Inr (cert # rest) \<and> CertPublicKey cert = EcdsaKey k"
  then show "VerifyBlobCmd env [] [] certRef sigRef blobRef =
      bindIO (emit (ReadFileCall certRef)) (\<lambda>_.
      bindIO (signatureB64 env sigRef) (\<lambda>b64sig.
      bindIO (readBlob env blobRef) (\<lambda>blobBytes.
      verifyAndCheck env (ECDSAPublicKey k) (Some cert) b64sig blobBytes)))"
    using selectKey_cert_mode(3) [OF assms, of cert rest k]
    by (simp add: VerifyBlobCmd_def bindIO_def emit_def)
qed

theorem VerifyBlobCmd_cert_leaf_witness:
  "VerifyBlobCmd testEnv [] [] ''empty.pem'' ''aGk='' ''msg'' =
     (Err (ErrorString ''no certs found in pem file''), [ReadFileCall ''empty.pem''])
   \<and> VerifyBlobCmd testEnv [] [] ''certs.pem'' ''aGk='' ''msg'' =
       VerifyBlobCmd (testEnv\<lparr>LoadCerts := \<lambda>_. Inr [leafCert]\<rparr>) [] [] ''certs.pem'' ''aGk='' ''msg''
   \<and> VerifyBlobCmd testEnv [] [] ''certs.pem'' ''aGk='' ''msg'' =
       bindIO (emit (ReadFileCall ''certs.pem'')) (\<lambda>_.
       bindIO (signatureB64 testEnv ''aGk='') (\<lambda>b64sig.
       bindIO (readBlob testEnv ''msg'') (\<lambda>blobBytes.
       verifyAndCheck testEnv (ECDSAPublicKey (EcdsaPublicKey 1 2)) (Some leafCert)
         b64sig blobBytes)))"
proof -
  have e: "ReadFile testEnv ''empty.pem'' = Inr []" "LoadCerts testEnv [] = Inr []"
    by (simp_all add: testEnv_def)
  have c: "ReadFile testEnv ''certs.pem'' = Inr ''ecdsa+rsa''"
    "LoadCerts testEnv ''ecdsa+rsa'' = Inr (leafCert # [rsaCert])"
    "CertPublicKey leafCert = EcdsaKey (EcdsaPublicKey 1 2)"
    by (simp_all add: testEnv_def leafCert_def)
  from VerifyBlobCmd_cert_leaf [OF _ e(1), of "''aGk=''" "''msg''"] e(2)
  have 1: "VerifyBlobCmd testEnv [] [] ''empty.pem'' ''aGk='' ''msg'' =
     (Err (ErrorString ''no certs found in pem file''), [ReadFileCall ''empty.pem''])"
    by simp
  note L = VerifyBlobCmd_cert_leaf [OF _ c(1), of "''aGk=''" "''msg''" leafCert "[rsaCert]"
        "EcdsaPublicKey 1 2"]
  have 2: "VerifyBlobCmd testEnv [] [] ''certs.pem'' ''aGk='' ''msg'' =
       VerifyBlobCmd (testEnv\<lparr>LoadCerts := \<lambda>_. Inr [leafCert]\<rparr>) [] [] ''certs.pem'' ''aGk='' ''msg''"
    using L c(2) by blast
  have 3: "VerifyBlobCmd testEnv [] [] ''certs.pem'' ''aGk='' ''msg'' =
       bindIO (emit (ReadFileCall ''certs.pem'')) (\<lambda>_.
       bindIO (signatureB64 testEnv ''aGk='') (\<lambda>b64sig.
       bindIO (readBlob testEnv ''msg'') (\<lambda>blobBytes.
       verifyAndCheck testEnv (ECDSAPublicKey (EcdsaPublicKey 1 2)) (Some leafCert)
         b64sig blobBytes)))"
    using L c(2) c(3) by blast
  from 1 2 3 show ?thesis by (intro conjI)
qed

section \<open>The signature reference\<close>

lemma signatureB64_by_cases:
  "(Stat env sigRef = None \<and> ReadFile env (Clean env sigRef) = Inr b \<longrightarrow>
      signatureB64 env sigRef =
        (Ok (if isb64 b then b else EncodeToString b),
         [StatCall sigRef, ReadFileCall (Clean env sigRef)]))
   \<and> (Stat env sigRef = None \<and> ReadFile env (Clean env sigRef) = Inl e \<longrightarrow>
      signatureB64 env sigRef = (Err e, [StatCall sigRef, ReadFileCall (Clean env sigRef)]))
   \<and> (Stat env sigRef = Some e \<and> IsNotExist e \<longrightarrow>
      signatureB64 env sigRef = (Ok sigRef, [StatCall sigRef]))
   \<and> (Stat env sigRef = Some e \<and> \<not> IsNotExist e \<longrightarrow>
      signatureB64 env sigRef = (Err e, [StatCall sigRef]))"
  by (simp add: signatureB64_def io_defs)

lemma signatureB64_examples:
  "signatureB64 testEnv ''sig.b64'' = (Ok ''aGk='', [StatCall ''sig.b64'', ReadFileCall ''sig.b64''])
   \<and> signatureB64 testEnv ''sig.raw'' = (Ok ''aGk='', [StatCall ''sig.raw'', ReadFileCall ''sig.raw''])
   \<and> signatureB64 testEnv ''aGk='' = (Ok ''aGk='', [StatCall ''aGk=''])
   \<and> signatureB64 testEnv ''locked'' =
        (Err (PathError ''stat'' ''locked'' EACCES), [StatCall ''locked''])
   \<and> signatureB64 (testEnv\<lparr>ReadFile := \<lambda>p. Inl (PathError ''read'' p EISDIR)\<rparr>) ''sig.raw'' =
        (Err (PathError ''read'' ''sig.raw'' EISDIR), [StatCall ''sig.raw'', ReadFileCall ''sig.raw''])"
  using signatureB64_by_cases [of testEnv "''sig.b64''" "''aGk=''"]
    signatureB64_by_cases [of testEnv "''sig.raw''" "''hi''"]
    signatureB64_by_cases [of testEnv "''aGk=''" _ "PathError ''stat'' ''aGk='' ENOENT"]
    signatureB64_by_cases [of testEnv "''locked''" _ "PathError ''stat'' ''locked'' EACCES"]
    signatureB64_by_cases [of "testEnv\<lparr>ReadFile := \<lambda>p. Inl (PathError ''read'' p EISDIR)\<rparr>"
       "''sig.raw''" _ "PathError ''read'' ''sig.raw'' EISDIR"]
  by (simp add: testEnv_def isb64_def DecodeString_aGk DecodeString_hi encode_def encodeStd_def)

section \<open>Signature normalization\<close>

lemma fileSignature_in_run:
  assumes "Stat env sigRef = None" and "ReadFile env (Clean env sigRef) = Inr b"
  shows "\<exists>b64sig t. signatureB64 env sigRef = (Ok b64sig, t) \<and> DecodeString b64sig = fileSignature b"
  using assms by (simp add: signatureB64_def io_defs fileSignature_def)

text \<open>
  C2, as amended: for every byte string \<open>s\<close>, a signature file holding the base64
  encoding of \<open>s\<close> gives the signature bytes \<open>s\<close>; a file holding the raw bytes
  \<open>s\<close> gives \<open>s\<close> as well when \<open>s\<close> is not itself accepted by the base64
  decoder, and the base64 decoding of \<open>s\<close> when it is.
\<close>

theorem fileSignature_raw_vs_encoded:
  "fileSignature (EncodeToString s) = Inr s
   \<and> (\<not> isb64 s \<longrightarrow> fileSignature s = Inr s)
   \<and> (isb64 s \<longrightarrow> fileSignature s = DecodeString s)"
  by (simp add: fileSignature_def isb64_EncodeToString DecodeString_EncodeToString)

theorem fileSignature_raw_vs_encoded_witness:
  "\<not> isb64 ''hi'' \<and> fileSignature (EncodeToString ''hi'') = Inr ''hi''
   \<and> fileSignature ''hi'' = Inr ''hi''"
proof -
  have h: "\<not> isb64 ''hi''"
    by (simp add: isb64_def DecodeString_hi)
  with fileSignature_raw_vs_encoded [of "''hi''"] show ?thesis
    by blast
qed

text \<open>
  The claim as stated fails for raw bytes that are valid base64 text: the four bytes
  \<open>AAAA\<close> are taken as encoded and give three zero bytes, while their encoding
  \<open>QUFBQQ==\<close> gives \<open>AAAA\<close>.
\<close>

theorem fileSignature_AAAA_counterexample:
  "fileSignature (EncodeToString ''AAAA'') = Inr ''AAAA''
   \<and> fileSignature ''AAAA'' = Inr [CHR 0x00, CHR 0x00, CHR 0x00]
   \<and> fileSignature (EncodeToString ''AAAA'') \<noteq> fileSignature ''AAAA''"
proof -
  have a: "fileSignature (EncodeToString ''AAAA'') = Inr ''AAAA''"
    by (simp only: fileSignature_def isb64_EncodeToString DecodeString_EncodeToString if_True)
  have b: "fileSignature ''AAAA'' = Inr [CHR 0x00, CHR 0x00, CHR 0x00]"
    by (simp add: fileSignature_def isb64_def DecodeString_AAAA)
  have "(Inr ''AAAA'' :: error + bytes) \<noteq> Inr [CHR 0x00, CHR 0x00, CHR 0x00]"
    by simp
  with a b show ?thesis by (simp only: simp_thms)
qed

section \<open>The order of the checks\<close>

lemma append_eq_split:
  "t0 @ t1 = pre @ x # post \<Longrightarrow> x \<notin> set t0 \<Longrightarrow> \<exists>pre1. pre = t0 @ pre1 \<and> t1 = pre1 @ x # post"
proof (induction t0 arbitrary: pre)
  case Nil
  then show ?case by simp
next
  case (Cons a t0)
  show ?case
  proof (cases pre)
    case Nil
    with Cons.prems show ?thesis by simp
  next
    case (Cons p pre')
    with Cons.prems Cons.IH [of pre'] show ?thesis by simp
  qed
qed

lemma selectKey_trace:
  "selectKey env keyRef kmsVal certRef = (r, t) \<Longrightarrow> \<forall>ev\<in>set t. \<not> isCheck ev"
  by (auto simp add: selectKey_def io_defs isCheck_def
      split: if_splits sum.splits list.splits crypto_PublicKey.splits)

lemma selectKey_cert:
  "selectKey env keyRef kmsVal certRef = (Ok (pubKey, Some cert), t) \<Longrightarrow>
     keyRef = [] \<and> kmsVal = [] \<and> certRef \<noteq> []"
  by (auto simp add: selectKey_def io_defs
      split: if_splits sum.splits list.splits crypto_PublicKey.splits)

lemma signatureB64_trace:
  "signatureB64 env sigRef = (r, t) \<Longrightarrow> \<forall>ev\<in>set t. \<not> isCheck ev"
  by (auto simp add: signatureB64_def io_defs isCheck_def
      split: if_splits sum.splits option.splits)

lemma readBlob_trace:
  "readBlob env blobRef = (r, t) \<Longrightarrow> \<forall>ev\<in>set t. \<not> isCheck ev"
  by (auto simp add: readBlob_def io_defs isCheck_def split: if_splits sum.splits)

lemma trustChain_cases:
  "trustChain env cert = (r, t) \<Longrightarrow>
     (cert = None \<and> r = Ok () \<and> t = [])
   \<or> (\<exists>c e. cert = Some c \<and> TrustedCert env c = Some e \<and> r = Err e \<and> t = [TrustedCertCall c])
   \<or> (\<exists>c. cert = Some c \<and> TrustedCert env c = None \<and> r = Ok ()
         \<and> t = [TrustedCertCall c, Stderr ''Certificate is trusted by Fulcio Root CA\<newline>'',
                Stderr (''Email: '' @ SubjectCommonName c @ ''\<newline>'')])"
  by (auto simp add: trustChain_def io_defs split: option.splits)

lemma tlogCheck_cases:
  "tlogCheck env pubKey cert b64sig blobBytes = (r, t) \<Longrightarrow>
     (\<not> Experimental env \<and> r = Ok () \<and> t = [])
   \<or> (Experimental env \<and> (\<exists>e. GetRekorClient env (TlogServer env) = Inl e \<and> r = Err e)
        \<and> t = [GetRekorClientCall (TlogServer env)])
   \<or> (Experimental env \<and> (\<exists>cl e. GetRekorClient env (TlogServer env) = Inr cl
          \<and> PublicKeyPem env pubKey = Inl e \<and> r = Err e)
        \<and> t = [GetRekorClientCall (TlogServer env)])
   \<or> (Experimental env \<and> (\<exists>cl pub. GetRekorClient env (TlogServer env) = Inr cl
          \<and> (\<exists>e. FindTlogEntry env cl b64sig blobBytes pub = Inl e \<and> r = Err e)
          \<and> t = [GetRekorClientCall (TlogServer env), FindTlogEntryCall cl b64sig blobBytes pub]))
   \<or> (Experimental env \<and> (\<exists>cl pub index. GetRekorClient env (TlogServer env) = Inr cl
          \<and> FindTlogEntry env cl b64sig blobBytes pub = Inr index \<and> r = Ok ()
          \<and> t = [GetRekorClientCall (TlogServer env), FindTlogEntryCall cl b64sig blobBytes pub,
                 Stderr (''tlog entry verified with index:  '' @ index @ ''\<newline>'')]))"
  by (auto simp add: tlogCheck_def io_defs Let_def split: if_splits sum.splits option.splits)

lemma verifyAndCheck_cases:
  "verifyAndCheck env pubKey cert b64sig blobBytes = (r, t) \<Longrightarrow>
     (\<exists>e. DecodeString b64sig = Inl e \<and> r = Err e \<and> t = [])
   \<or> (\<exists>sig e. DecodeString b64sig = Inr sig \<and> Verify env pubKey blobBytes sig = Some e
         \<and> r = Err e \<and> t = [VerifyCall pubKey blobBytes sig])
   \<or> (\<exists>sig t1. DecodeString b64sig = Inr sig \<and> Verify env pubKey blobBytes sig = None
         \<and> trustChain env cert = (r, t1) \<and> r \<noteq> Ok ()
         \<and> t = VerifyCall pubKey blobBytes sig # t1)
   \<or> (\<exists>sig t1 t2. DecodeString b64sig = Inr sig \<and> Verify env pubKey blobBytes sig = None
         \<and> trustChain env cert = (Ok (), t1)
         \<and> tlogCheck env pubKey cert b64sig blobBytes = (r, t2)
         \<and> t = VerifyCall pubKey blobBytes sig # t1 @ Stderr ''Verified OK\<newline>'' # t2)"
  by (auto simp add: verifyAndCheck_def bindIO_def check_def emit_def fail_def
      split: sum.splits option.splits prod.splits step.splits)

lemma verifyAndCheck_trust_after_verify:
  assumes "verifyAndCheck env pubKey cert b64sig blobBytes = (r, t)"
    and "t = pre @ TrustedCertCall c # post"
  shows "\<exists>sig. VerifyCall pubKey blobBytes sig \<in> set pre \<and> Verify env pubKey blobBytes sig = None"
  using verifyAndCheck_cases [OF assms(1)] assms(2)
  by (auto dest!: trustChain_cases tlogCheck_cases simp add: Cons_eq_append_conv append_eq_Cons_conv)

lemma verifyAndCheck_mismatch:
  assumes "verifyAndCheck env pubKey cert b64sig blobBytes = (r, t)"
    and "VerifyCall k b s \<in> set t" and "Verify env k b s = Some e"
  shows "r = Err e \<and> t = [VerifyCall k b s]"
  using verifyAndCheck_cases [OF assms(1)] assms(2,3)
  by (auto dest!: trustChain_cases tlogCheck_cases)

lemma verifyAndCheck_trust_cert:
  assumes "verifyAndCheck env pubKey cert b64sig blobBytes = (r, t)"
    and "ev \<in> set t" and "isTrustedCertCall ev"
  shows "cert \<noteq> None"
  using verifyAndCheck_cases [OF assms(1)] assms(2,3)
  by (auto dest!: trustChain_cases tlogCheck_cases)

lemma verifyAndCheck_tlog_experimental:
  assumes "verifyAndCheck env pubKey cert b64sig blobBytes = (r, t)"
    and "ev \<in> set t" and "isTlogCall ev"
  shows "Experimental env"
  using verifyAndCheck_cases [OF assms(1)] assms(2,3)
  by (auto dest!: trustChain_cases tlogCheck_cases)

lemma verifyAndCheck_no_tlog:
  assumes "verifyAndCheck env pubKey cert b64sig blobBytes = (r, t)"
    and "\<not> Experimental env" and "VerifyCall k b s \<in> set t" and "Verify env k b s = None"
    and "\<forall>c. TrustedCertCall c \<in> set t \<longrightarrow> TrustedCert env c = None"
  shows "r = Ok ()"
  using verifyAndCheck_cases [OF assms(1)] assms(2-5)
  by (auto dest!: trustChain_cases tlogCheck_cases)

lemma verifyAndCheck_tlog_failure:
  assumes "verifyAndCheck env pubKey cert b64sig blobBytes = (r, t)"
  shows "GetRekorClientCall srv \<in> set t \<Longrightarrow> GetRekorClient env srv = Inl e \<Longrightarrow> r = Err e"
    and "FindTlogEntryCall cl s b p \<in> set t \<Longrightarrow> FindTlogEntry env cl s b p = Inl e \<Longrightarrow> r = Err e"
  using verifyAndCheck_cases [OF assms(1)]
  by (auto dest!: trustChain_cases tlogCheck_cases)

lemma verifyAndCheck_tlog_required:
  assumes "verifyAndCheck env pubKey cert b64sig blobBytes = (r, t)"
    and "Experimental env" and "r = Ok ()"
  shows "\<exists>cl s b p index. FindTlogEntryCall cl s b p \<in> set t
           \<and> FindTlogEntry env cl s b p = Inr index"
  using verifyAndCheck_cases [OF assms(1)] assms(2,3)
  by (auto dest!: trustChain_cases tlogCheck_cases)

lemma VerifyBlobCmd_run:
  assumes "VerifyBlobCmd env keyRef kmsVal certRef sigRef blobRef = (r, t)"
  shows "((\<forall>ev\<in>set t. \<not> isCheck ev) \<and> r \<noteq> Ok ())
       \<or> (\<exists>pubKey cert b64sig blobBytes t0 t1. t = t0 @ t1 \<and> (\<forall>ev\<in>set t0. \<not> isCheck ev)
            \<and> verifyAndCheck env pubKey cert b64sig blobBytes = (r, t1)
            \<and> (cert \<noteq> None \<longrightarrow> keyRef = [] \<and> kmsVal = [] \<and> certRef \<noteq> []))"
proof -
  obtain r1 t1 where s1: "selectKey env keyRef kmsVal certRef = (r1, t1)" by fastforce
  obtain r2 t2 where s2: "signatureB64 env sigRef = (r2, t2)" by fastforce
  obtain r3 t3 where s3: "readBlob env blobRef = (r3, t3)" by fastforce
  note n1 = selectKey_trace [OF s1] and n2 = signatureB64_trace [OF s2]
    and n3 = readBlob_trace [OF s3]
  show ?thesis
  proof (cases r1)
    case (Ok kc)
    obtain pubKey cert where kc: "kc = (pubKey, cert)" by (cases kc)
    have cm: "cert \<noteq> None \<longrightarrow> keyRef = [] \<and> kmsVal = [] \<and> certRef \<noteq> []"
      using s1 Ok kc selectKey_cert [of env keyRef kmsVal certRef pubKey _ t1] by auto
    show ?thesis
    proof (cases r2)
      case b64: (Ok b64sig)
      show ?thesis
      proof (cases r3)
        case blob: (Ok blobBytes)
        obtain t4 where v: "verifyAndCheck env pubKey cert b64sig blobBytes = (r, t4)"
          and t: "t = (t1 @ t2 @ t3) @ t4"
          using assms s1 s2 s3 Ok kc b64 blob
          by (auto simp add: VerifyBlobCmd_def bindIO_def split: prod.splits)
        from n1 n2 n3 have "\<forall>ev\<in>set (t1 @ t2 @ t3). \<not> isCheck ev" by auto
        with v t cm show ?thesis by blast
      next
        case (Err e)
        with assms s1 s2 s3 Ok kc b64 have "t = t1 @ t2 @ t3" "r \<noteq> Ok ()"
          by (auto simp add: VerifyBlobCmd_def bindIO_def split: prod.splits)
        with n1 n2 n3 show ?thesis by auto
      next
        case (Panicked p)
        with assms s1 s2 s3 Ok kc b64 have "t = t1 @ t2 @ t3" "r \<noteq> Ok ()"
          by (auto simp add: VerifyBlobCmd_def bindIO_def split: prod.splits)
        with n1 n2 n3 show ?thesis by auto
      qed
    next
      case (Err e)
      with assms s1 s2 Ok kc have "t = t1 @ t2" "r \<noteq> Ok ()"
        by (auto simp add: VerifyBlobCmd_def bindIO_def split: prod.splits)
      with n1 n2 show ?thesis by auto
    next
      case (Panicked p)
      with assms s1 s2 Ok kc have "t = t1 @ t2" "r \<noteq> Ok ()"
        by (auto simp add: VerifyBlobCmd_def bindIO_def split: prod.splits)
      with n1 n2 show ?thesis by auto
    qed
  next
    case (Err e)
    with assms s1 have "t = t1" "r \<noteq> Ok ()" by (auto simp add: VerifyBlobCmd_def bindIO_def)
    with n1 show ?thesis by auto
  next
    case (Panicked p)
    with assms s1 have "t = t1" "r \<noteq> Ok ()" by (auto simp add: VerifyBlobCmd_def bindIO_def)
    with n1 show ?thesis by auto
  qed
qed

lemma isCheck_simps [simp]:
  "isCheck (VerifyCall k b s)" "isCheck (TrustedCertCall c)"
  "isCheck (GetRekorClientCall srv)" "isCheck (FindTlogEntryCall cl s b p)"
  by (simp_all add: isCheck_def)

lemma testEnv_stages2:
  "selectKey testEnv ''cosign.pub'' [] [] =
     (Ok (OtherPublicKey ''cosign.pub'', None), [LoadPublicKeyCall ''cosign.pub''])"
  "selectKey (testEnv\<lparr>Experimental := True\<rparr>) ''cosign.pub'' [] [] =
     (Ok (OtherPublicKey ''cosign.pub'', None), [LoadPublicKeyCall ''cosign.pub''])"
  "signatureB64 testEnv ''AAAA'' = (Ok ''AAAA'', [StatCall ''AAAA''])"
  "signatureB64 (testEnv\<lparr>Experimental := True\<rparr>) ''aGk='' = (Ok ''aGk='', [StatCall ''aGk=''])"
  "readBlob (testEnv\<lparr>Experimental := True\<rparr>) ''msg'' = (Ok ''blob'', [ReadFileCall ''msg''])"
  by (simp_all add: selectKey_def signatureB64_def readBlob_def io_defs testEnv_def)

lemma testEnv_verify2:
  "verifyAndCheck testEnv (ECDSAPublicKey (EcdsaPublicKey 1 2)) (Some leafCert) ''AAAA'' ''blob'' =
     (Err (ErrorString ''invalid signature when validating ASN.1 encoded signature''),
      [VerifyCall (ECDSAPublicKey (EcdsaPublicKey 1 2)) ''blob'' [CHR 0x00, CHR 0x00, CHR 0x00]])"
  "verifyAndCheck (testEnv\<lparr>Experimental := True\<rparr>) (OtherPublicKey ''cosign.pub'') None ''aGk='' ''blob'' =
     (Err (ErrorString ''entry not found''),
      [VerifyCall (OtherPublicKey ''cosign.pub'') ''blob'' ''hi'', Stderr ''Verified OK\<newline>'',
       GetRekorClientCall ''https://api.rekor.dev'',
       FindTlogEntryCall (RekorClient ''https://api.rekor.dev'') ''aGk='' ''blob'' ''PUBLIC KEY''])"
  by (simp_all add: verifyAndCheck_def trustChain_def tlogCheck_def io_defs DecodeString_aGk
      DecodeString_AAAA testEnv_def)

lemma testEnv_mismatch_run:
  "VerifyBlobCmd testEnv [] [] ''certs.pem'' ''AAAA'' ''msg'' =
     (Err (ErrorString ''invalid signature when validating ASN.1 encoded signature''),
      [ReadFileCall ''certs.pem'', StatCall ''AAAA'', ReadFileCall ''msg''] @
      [VerifyCall (ECDSAPublicKey (EcdsaPublicKey 1 2)) ''blob'' [CHR 0x00, CHR 0x00, CHR 0x00]])"
  by (simp add: VerifyBlobCmd_def testEnv_stages testEnv_stages2 testEnv_verify2 bindIO_def)

lemma testEnv_tlog_run:
  "VerifyBlobCmd (testEnv\<lparr>Experimental := True\<rparr>) ''cosign.pub'' [] [] ''aGk='' ''msg'' =
     (Err (ErrorString ''entry not found''),
      [LoadPublicKeyCall ''cosign.pub'', StatCall ''aGk='', ReadFileCall ''msg'',
       VerifyCall (OtherPublicKey ''cosign.pub'') ''blob'' ''hi'', Stderr ''Verified OK\<newline>'',
       GetRekorClientCall ''https://api.rekor.dev'',
       FindTlogEntryCall (RekorClient ''https://api.rekor.dev'') ''aGk='' ''blob'' ''PUBLIC KEY''])"
  by (simp add: VerifyBlobCmd_def testEnv_stages2 testEnv_verify2 bindIO_def)

text \<open>
  C5: in every run, a call of the trust-chain check comes after a call of \<open>Verify\<close>
  that returned no error; when \<open>Verify\<close> returns an error the command returns that
  error and the \<open>Verify\<close> call is the last call of the run, with no trust-chain or
  transparency-log call before it either; and a trust-chain call is made only in
  certificate mode (no key path, no KMS reference, a certificate path).
\<close>

theorem VerifyBlobCmd_order:
  assumes "VerifyBlobCmd env keyRef kmsVal certRef sigRef blobRef = (r, t)"
  shows "(\<forall>pre c post. t = pre @ TrustedCertCall c # post \<longrightarrow>
            (\<exists>k b s. VerifyCall k b s \<in> set pre \<and> Verify env k b s = None))
       \<and> (\<forall>k b s e. VerifyCall k b s \<in> set t \<and> Verify env k b s = Some e \<longrightarrow>
            r = Err e \<and> (\<exists>pre. t = pre @ [VerifyCall k b s] \<and> (\<forall>ev\<in>set pre. \<not> isCheck ev)))
       \<and> ((\<exists>ev\<in>set t. isTrustedCertCall ev) \<longrightarrow> keyRef = [] \<and> kmsVal = [] \<and> certRef \<noteq> [])"
proof -
  have split: "\<exists>pubKey cert b64sig blobBytes t0 t1. t = t0 @ t1 \<and> (\<forall>ev\<in>set t0. \<not> isCheck ev)
        \<and> verifyAndCheck env pubKey cert b64sig blobBytes = (r, t1) \<and> ev \<in> set t1
        \<and> (cert \<noteq> None \<longrightarrow> keyRef = [] \<and> kmsVal = [] \<and> certRef \<noteq> [])"
    if "ev \<in> set t" "isCheck ev" for ev
    using VerifyBlobCmd_run [OF assms] that by fastforce
  have 1: "\<exists>k b s. VerifyCall k b s \<in> set pre \<and> Verify env k b s = None"
    if t: "t = pre @ TrustedCertCall c # post" for pre c post
  proof -
    from split [of "TrustedCertCall c"] t
    obtain pubKey cert b64sig blobBytes t0 t1 where d: "t = t0 @ t1" "\<forall>ev\<in>set t0. \<not> isCheck ev"
      "verifyAndCheck env pubKey cert b64sig blobBytes = (r, t1)"
      by auto
    from d(2) have "TrustedCertCall c \<notin> set t0" by auto
    with d(1) t obtain pre1 where p: "pre = t0 @ pre1" "t1 = pre1 @ TrustedCertCall c # post"
      using append_eq_split [of t0 t1 pre "TrustedCertCall c" post] by auto
    from verifyAndCheck_trust_after_verify [OF d(3) p(2)] p(1)
    show ?thesis by auto
  qed
  have 2: "r = Err e \<and> (\<exists>pre. t = pre @ [VerifyCall k b s] \<and> (\<forall>ev\<in>set pre. \<not> isCheck ev))"
    if a: "VerifyCall k b s \<in> set t \<and> Verify env k b s = Some e" for k b s e
  proof -
    from split [of "VerifyCall k b s"] a
    obtain pubKey cert b64sig blobBytes t0 t1 where d: "t = t0 @ t1" "\<forall>ev\<in>set t0. \<not> isCheck ev"
      "verifyAndCheck env pubKey cert b64sig blobBytes = (r, t1)" "VerifyCall k b s \<in> set t1"
      by auto
    from verifyAndCheck_mismatch [OF d(3) d(4)] a have "r = Err e" "t1 = [VerifyCall k b s]"
      by auto
    with d(1,2) show ?thesis by auto
  qed
  have 3: "keyRef = [] \<and> kmsVal = [] \<and> certRef \<noteq> []" if "\<exists>ev\<in>set t. isTrustedCertCall ev"
  proof -
    from that obtain ev where ev: "ev \<in> set t" "isTrustedCertCall ev" by auto
    then have "isCheck ev" by (simp add: isCheck_def)
    from split [OF ev(1) this]
    obtain pubKey cert b64sig blobBytes t0 t1 where d:
      "verifyAndCheck env pubKey cert b64sig blobBytes = (r, t1)" "ev \<in> set t1"
      "cert \<noteq> None \<longrightarrow> keyRef = [] \<and> kmsVal = [] \<and> certRef \<noteq> []"
      by auto
    from verifyAndCheck_trust_cert [OF d(1) d(2) ev(2)] d(3) show ?thesis by simp
  qed
  from 1 2 3 show ?thesis by blast
qed

theorem VerifyBlobCmd_order_witness:
  "VerifyBlobCmd testEnv [] [] ''certs.pem'' ''aGk='' ''msg'' =
     (Ok (), [ReadFileCall ''certs.pem'', StatCall ''aGk='', ReadFileCall ''msg'',
              VerifyCall (ECDSAPublicKey (EcdsaPublicKey 1 2)) ''blob'' ''hi'',
              TrustedCertCall leafCert,
              Stderr ''Certificate is trusted by Fulcio Root CA\<newline>'',
              Stderr ''Email: dev@example.com\<newline>'',
              Stderr ''Verified OK\<newline>''])
   \<and> (\<exists>k b s. VerifyCall k b s \<in> set [ReadFileCall ''certs.pem'', StatCall ''aGk='',
                   ReadFileCall ''msg'', VerifyCall (ECDSAPublicKey (EcdsaPublicKey 1 2)) ''blob'' ''hi'']
          \<and> Verify testEnv k b s = None)
   \<and> VerifyBlobCmd testEnv [] [] ''certs.pem'' ''AAAA'' ''msg'' =
       (Err (ErrorString ''invalid signature when validating ASN.1 encoded signature''),
        [ReadFileCall ''certs.pem'', StatCall ''AAAA'', ReadFileCall ''msg'',
         VerifyCall (ECDSAPublicKey (EcdsaPublicKey 1 2)) ''blob'' [CHR 0x00, CHR 0x00, CHR 0x00]])
   \<and> Verify testEnv (ECDSAPublicKey (EcdsaPublicKey 1 2)) ''blob'' [CHR 0x00, CHR 0x00, CHR 0x00]
       = Some (ErrorString ''invalid signature when validating ASN.1 encoded signature'')"
proof -
  note A = VerifyBlobCmd_order [OF testEnv_cert_run]
  have "\<exists>k b s. VerifyCall k b s \<in> set [ReadFileCall ''certs.pem'', StatCall ''aGk='',
                   ReadFileCall ''msg'', VerifyCall (ECDSAPublicKey (EcdsaPublicKey 1 2)) ''blob'' ''hi'']
          \<and> Verify testEnv k b s = None"
    by (rule A [THEN conjunct1, rule_format]) simp
  moreover have "Verify testEnv (ECDSAPublicKey (EcdsaPublicKey 1 2)) ''blob'' [CHR 0x00, CHR 0x00, CHR 0x00]
       = Some (ErrorString ''invalid signature when validating ASN.1 encoded signature'')"
    by (simp add: testEnv_def)
  ultimately show ?thesis
    using testEnv_cert_run testEnv_mismatch_run by simp
qed

text \<open>
  C6: a call to the transparency log is made only when \<open>cosign.Experimental()\<close> is
  true. When it is false, a run whose \<open>Verify\<close> call and whose trust-chain calls (if
  any) returned no error returns nil. A failed \<open>GetRekorClient\<close> or
  \<open>FindTlogEntry\<close> is returned as the result of the command, and when the mode is on
  the command returns nil only after a \<open>FindTlogEntry\<close> call that found the entry.
\<close>

theorem VerifyBlobCmd_tlog:
  assumes "VerifyBlobCmd env keyRef kmsVal certRef sigRef blobRef = (r, t)"
  shows "((\<exists>ev\<in>set t. isTlogCall ev) \<longrightarrow> Experimental env)
       \<and> (\<not> Experimental env \<and> (\<exists>k b s. VerifyCall k b s \<in> set t \<and> Verify env k b s = None)
            \<and> (\<forall>c. TrustedCertCall c \<in> set t \<longrightarrow> TrustedCert env c = None) \<longrightarrow> r = Ok ())
       \<and> (\<forall>srv e. GetRekorClientCall srv \<in> set t \<and> GetRekorClient env srv = Inl e \<longrightarrow> r = Err e)
       \<and> (\<forall>cl s b p e. FindTlogEntryCall cl s b p \<in> set t \<and> FindTlogEntry env cl s b p = Inl e
            \<longrightarrow> r = Err e)
       \<and> (Experimental env \<and> r = Ok () \<longrightarrow>
            (\<exists>cl s b p index. FindTlogEntryCall cl s b p \<in> set t
               \<and> FindTlogEntry env cl s b p = Inr index))"
proof -
  have split: "\<exists>pubKey cert b64sig blobBytes t0 t1. t = t0 @ t1 \<and> (\<forall>ev\<in>set t0. \<not> isCheck ev)
        \<and> verifyAndCheck env pubKey cert b64sig blobBytes = (r, t1) \<and> ev \<in> set t1"
    if "ev \<in> set t" "isCheck ev" for ev
    using VerifyBlobCmd_run [OF assms] that by fastforce
  have 1: "Experimental env" if "\<exists>ev\<in>set t. isTlogCall ev"
  proof -
    from that obtain ev where ev: "ev \<in> set t" "isTlogCall ev" by auto
    then have "isCheck ev" by (simp add: isCheck_def)
    from split [OF ev(1) this] verifyAndCheck_tlog_experimental ev(2)
    show ?thesis by blast
  qed
  have 2: "r = Ok ()"
    if a: "\<not> Experimental env \<and> (\<exists>k b s. VerifyCall k b s \<in> set t \<and> Verify env k b s = None)
            \<and> (\<forall>c. TrustedCertCall c \<in> set t \<longrightarrow> TrustedCert env c = None)"
  proof -
    from a obtain k b s where v: "VerifyCall k b s \<in> set t" "Verify env k b s = None" by auto
    from split [OF v(1)]
    obtain pubKey cert b64sig blobBytes t0 t1 where d: "t = t0 @ t1"
      "verifyAndCheck env pubKey cert b64sig blobBytes = (r, t1)" "VerifyCall k b s \<in> set t1"
      by auto
    from a d(1) have "\<forall>c. TrustedCertCall c \<in> set t1 \<longrightarrow> TrustedCert env c = None" by auto
    with verifyAndCheck_no_tlog [OF d(2) _ d(3) v(2)] a show ?thesis by blast
  qed
  have 3: "r = Err e" if "GetRekorClientCall srv \<in> set t \<and> GetRekorClient env srv = Inl e"
    for srv e
    using that split [of "GetRekorClientCall srv"] verifyAndCheck_tlog_failure(1) by fastforce
  have 4: "r = Err e"
    if "FindTlogEntryCall cl s b p \<in> set t \<and> FindTlogEntry env cl s b p = Inl e" for cl s b p e
    using that split [of "FindTlogEntryCall cl s b p"] verifyAndCheck_tlog_failure(2)
    by fastforce
  have 5: "\<exists>cl s b p index. FindTlogEntryCall cl s b p \<in> set t
               \<and> FindTlogEntry env cl s b p = Inr index"
    if a: "Experimental env \<and> r = Ok ()"
  proof -
    from VerifyBlobCmd_run [OF assms] a
    obtain pubKey cert b64sig blobBytes t0 t1 where d: "t = t0 @ t1"
      "verifyAndCheck env pubKey cert b64sig blobBytes = (r, t1)" by auto
    from verifyAndCheck_tlog_required [OF d(2)] a d(1) show ?thesis by fastforce
  qed
  from 1 2 3 4 5 show ?thesis by blast
qed

theorem VerifyBlobCmd_tlog_witness:
  "VerifyBlobCmd testEnv [] [] ''certs.pem'' ''aGk='' ''msg'' =
     (Ok (), [ReadFileCall ''certs.pem'', StatCall ''aGk='', ReadFileCall ''msg'',
              VerifyCall (ECDSAPublicKey (EcdsaPublicKey 1 2)) ''blob'' ''hi'',
              TrustedCertCall leafCert,
              Stderr ''Certificate is trusted by Fulcio Root CA\<newline>'',
              Stderr ''Email: dev@example.com\<newline>'',
              Stderr ''Verified OK\<newline>''])
   \<and> \<not> Experimental testEnv
   \<and> Verify testEnv (ECDSAPublicKey (EcdsaPublicKey 1 2)) ''blob'' ''hi'' = None
   \<and> TrustedCert testEnv leafCert = None
   \<and> Experimental (testEnv\<lparr>Experimental := True\<rparr>)
   \<and> FindTlogEntry (testEnv\<lparr>Experimental := True\<rparr>) (RekorClient ''https://api.rekor.dev'')
        ''aGk='' ''blob'' ''PUBLIC KEY'' = Inl (ErrorString ''entry not found'')
   \<and> fst (VerifyBlobCmd (testEnv\<lparr>Experimental := True\<rparr>) ''cosign.pub'' [] [] ''aGk='' ''msg'')
       = Err (ErrorString ''entry not found'')"
proof -
  have f: "FindTlogEntry (testEnv\<lparr>Experimental := True\<rparr>) (RekorClient ''https://api.rekor.dev'')
        ''aGk='' ''blob'' ''PUBLIC KEY'' = Inl (ErrorString ''entry not found'')"
    by (simp add: testEnv_def)
  have "fst (VerifyBlobCmd (testEnv\<lparr>Experimental := True\<rparr>) ''cosign.pub'' [] [] ''aGk='' ''msg'')
       = Err (ErrorString ''entry not found'')"
    using VerifyBlobCmd_tlog [OF testEnv_tlog_run] f by (simp add: testEnv_tlog_run)
  moreover have "\<not> Experimental testEnv"
    "Verify testEnv (ECDSAPublicKey (EcdsaPublicKey 1 2)) ''blob'' ''hi'' = None"
    "TrustedCert testEnv leafCert = None"
    by (simp_all add: testEnv_def)
  ultimately show ?thesis
    using VerifyBlobCmd_tlog [OF testEnv_cert_run] testEnv_cert_run f by simp
qed

section \<open>The signature reference in a run\<close>

lemma verifyAndCheck_verify_call:
  assumes "verifyAndCheck env pubKey cert b64sig blobBytes = (r, t)"
  shows "VerifyCall k bl s \<in> set t \<Longrightarrow> k = pubKey \<and> bl = blobBytes \<and> DecodeString b64sig = Inr s"
    and "DecodeString b64sig = Inr s \<Longrightarrow> VerifyCall pubKey blobBytes s \<in> set t"
    and "DecodeString b64sig = Inl e \<Longrightarrow> r = Err e \<and> t = []"
  using verifyAndCheck_cases [OF assms]
  by (auto dest!: trustChain_cases tlogCheck_cases)

lemma VerifyBlobCmd_after_signature:
  assumes sel: "selectKey env keyRef kmsVal certRef = (Ok (pubKey, cert), t1)"
    and sg: "signatureB64 env sigRef = (Ok b64sig, t2)"
    and run: "VerifyBlobCmd env keyRef kmsVal certRef sigRef blobRef = (r, t)"
  shows "(\<forall>k bl s. VerifyCall k bl s \<in> set t \<longrightarrow> k = pubKey \<and> DecodeString b64sig = Inr s)
       \<and> (\<forall>blob t3 s. readBlob env blobRef = (Ok blob, t3) \<and> DecodeString b64sig = Inr s \<longrightarrow>
            VerifyCall pubKey blob s \<in> set t)
       \<and> (\<forall>blob t3 e. readBlob env blobRef = (Ok blob, t3) \<and> DecodeString b64sig = Inl e \<longrightarrow>
            r = Err e)
       \<and> (\<exists>t'. t = t1 @ t2 @ t')"
proof -
  obtain r3 t3 where s3: "readBlob env blobRef = (r3, t3)" by fastforce
  note n1 = selectKey_trace [OF sel] and n3 = readBlob_trace [OF s3]
  show ?thesis
  proof (cases r3)
    case (Ok blob)
    obtain t4 where v: "verifyAndCheck env pubKey cert b64sig blob = (r, t4)"
      and t: "t = t1 @ t2 @ t3 @ t4"
      using run sel sg s3 Ok by (auto simp add: VerifyBlobCmd_def bindIO_def split: prod.splits)
    have n2: "\<forall>ev\<in>set t2. \<not> isCheck ev"
      using signatureB64_trace [OF sg] .
    have "k = pubKey \<and> DecodeString b64sig = Inr s" if "VerifyCall k bl s \<in> set t" for k bl s
    proof -
      from that t n1 n2 n3 have "VerifyCall k bl s \<in> set t4" by auto
      from verifyAndCheck_verify_call(1) [OF v this] show ?thesis by simp
    qed
    moreover have "VerifyCall pubKey blob s \<in> set t" if "DecodeString b64sig = Inr s" for s
      using verifyAndCheck_verify_call(2) [OF v that] t by simp
    moreover have "r = Err e" if "DecodeString b64sig = Inl e" for e
      using verifyAndCheck_verify_call(3) [OF v that] by simp
    ultimately show ?thesis using t s3 Ok by auto
  next
    case (Err e)
    with run sel sg s3 have t: "t = t1 @ t2 @ t3"
      by (auto simp add: VerifyBlobCmd_def bindIO_def split: prod.splits)
    have n2: "\<forall>ev\<in>set t2. \<not> isCheck ev"
      using signatureB64_trace [OF sg] .
    from t n1 n2 n3 have "\<forall>k bl s. VerifyCall k bl s \<notin> set t" by auto
    with t s3 Err show ?thesis by auto
  next
    case (Panicked p)
    with run sel sg s3 have t: "t = t1 @ t2 @ t3"
      by (auto simp add: VerifyBlobCmd_def bindIO_def split: prod.splits)
    have n2: "\<forall>ev\<in>set t2. \<not> isCheck ev"
      using signatureB64_trace [OF sg] .
    from t n1 n2 n3 have "\<forall>k bl s. VerifyCall k bl s \<notin> set t" by auto
    with t s3 Panicked show ?thesis by auto
  qed
qed

lemma VerifyBlobCmd_signature_error:
  assumes sel: "selectKey env keyRef kmsVal certRef = (Ok (pubKey, cert), t1)"
    and sg: "signatureB64 env sigRef = (Err e, t2)"
    and run: "VerifyBlobCmd env keyRef kmsVal certRef sigRef blobRef = (r, t)"
  shows "r = Err e \<and> t = t1 @ t2"
  using run sel sg by (auto simp add: VerifyBlobCmd_def bindIO_def)

text \<open>
  C10: in every run of the command that has picked its key, when \<open>os.Stat\<close> finds
  the signature reference the file is read, and the signature handed to \<open>Verify\<close> is
  what the contents of the file give, never the reference taken as base64 text; a
  failed read is the result of the command. The reference is decoded as base64 text
  only when \<open>Stat\<close> fails with a not-exist error, and then no signature file is read.
  Any other \<open>Stat\<close> error is the result of the command and \<open>Stat\<close> is its last
  call.
\<close>

theorem VerifyBlobCmd_signature_reference:
  assumes sel: "selectKey env keyRef kmsVal certRef = (Ok (pubKey, cert), t1)"
    and run: "VerifyBlobCmd env keyRef kmsVal certRef sigRef blobRef = (r, t)"
  shows "(Stat env sigRef = None \<and> ReadFile env (Clean env sigRef) = Inr b \<longrightarrow>
            (\<forall>k bl s. VerifyCall k bl s \<in> set t \<longrightarrow> k = pubKey \<and> fileSignature b = Inr s)
          \<and> (\<forall>blob t3. readBlob env blobRef = (Ok blob, t3) \<longrightarrow>
                (\<exists>s. fileSignature b = Inr s \<and> VerifyCall pubKey blob s \<in> set t))
          \<and> (\<exists>t'. t = t1 @ [StatCall sigRef, ReadFileCall (Clean env sigRef)] @ t'))
       \<and> (Stat env sigRef = None \<and> ReadFile env (Clean env sigRef) = Inl e \<longrightarrow>
            r = Err e \<and> t = t1 @ [StatCall sigRef, ReadFileCall (Clean env sigRef)])
       \<and> (Stat env sigRef = Some e \<and> IsNotExist e \<longrightarrow>
            (\<forall>k bl s. VerifyCall k bl s \<in> set t \<longrightarrow> k = pubKey \<and> DecodeString sigRef = Inr s)
          \<and> (\<forall>blob t3 s. readBlob env blobRef = (Ok blob, t3) \<and> DecodeString sigRef = Inr s \<longrightarrow>
                VerifyCall pubKey blob s \<in> set t)
          \<and> (\<forall>blob t3 e'. readBlob env blobRef = (Ok blob, t3) \<and> DecodeString sigRef = Inl e' \<longrightarrow>
                r = Err e')
          \<and> (\<exists>t'. t = t1 @ [StatCall sigRef] @ t'))
       \<and> (Stat env sigRef = Some e \<and> \<not> IsNotExist e \<longrightarrow>
            r = Err e \<and> t = t1 @ [StatCall sigRef])"
proof -
  have 1: "(\<forall>k bl s. VerifyCall k bl s \<in> set t \<longrightarrow> k = pubKey \<and> fileSignature b = Inr s)
          \<and> (\<forall>blob t3. readBlob env blobRef = (Ok blob, t3) \<longrightarrow>
                (\<exists>s. fileSignature b = Inr s \<and> VerifyCall pubKey blob s \<in> set t))
          \<and> (\<exists>t'. t = t1 @ [StatCall sigRef, ReadFileCall (Clean env sigRef)] @ t')"
    if a: "Stat env sigRef = None \<and> ReadFile env (Clean env sigRef) = Inr b"
  proof -
    define b64sig where "b64sig = (if isb64 b then b else EncodeToString b)"
    have sg: "signatureB64 env sigRef =
        (Ok b64sig, [StatCall sigRef, ReadFileCall (Clean env sigRef)])"
      using a by (simp add: signatureB64_def io_defs b64sig_def)
    have fs: "fileSignature b = DecodeString b64sig"
      by (simp add: fileSignature_def b64sig_def)
    have ex: "\<exists>s. DecodeString b64sig = Inr s"
      by (cases "isb64 b")
        (auto simp add: b64sig_def isb64_def DecodeString_EncodeToString split: sum.splits)
    from VerifyBlobCmd_after_signature [OF sel sg run] fs ex show ?thesis
      by (simp only: fs) blast
  qed
  have 2: "r = Err e \<and> t = t1 @ [StatCall sigRef, ReadFileCall (Clean env sigRef)]"
    if a: "Stat env sigRef = None \<and> ReadFile env (Clean env sigRef) = Inl e"
  proof -
    have sg: "signatureB64 env sigRef = (Err e, [StatCall sigRef, ReadFileCall (Clean env sigRef)])"
      using a by (simp add: signatureB64_def io_defs)
    from VerifyBlobCmd_signature_error [OF sel sg run] show ?thesis .
  qed
  have 3: "(\<forall>k bl s. VerifyCall k bl s \<in> set t \<longrightarrow> k = pubKey \<and> DecodeString sigRef = Inr s)
          \<and> (\<forall>blob t3 s. readBlob env blobRef = (Ok blob, t3) \<and> DecodeString sigRef = Inr s \<longrightarrow>
                VerifyCall pubKey blob s \<in> set t)
          \<and> (\<forall>blob t3 e'. readBlob env blobRef = (Ok blob, t3) \<and> DecodeString sigRef = Inl e' \<longrightarrow>
                r = Err e')
          \<and> (\<exists>t'. t = t1 @ [StatCall sigRef] @ t')"
    if a: "Stat env sigRef = Some e \<and> IsNotExist e"
  proof -
    have sg: "signatureB64 env sigRef = (Ok sigRef, [StatCall sigRef])"
      using a by (simp add: signatureB64_def)
    from VerifyBlobCmd_after_signature [OF sel sg run] show ?thesis .
  qed
  have 4: "r = Err e \<and> t = t1 @ [StatCall sigRef]"
    if a: "Stat env sigRef = Some e \<and> \<not> IsNotExist e"
  proof -
    have sg: "signatureB64 env sigRef = (Err e, [StatCall sigRef])"
      using a by (simp add: signatureB64_def)
    from VerifyBlobCmd_signature_error [OF sel sg run] show ?thesis .
  qed
  from 1 2 3 4 show ?thesis by blast
qed

theorem VerifyBlobCmd_signature_reference_witness:
  "selectKey testEnv ''cosign.pub'' [] [] =
     (Ok (OtherPublicKey ''cosign.pub'', None), [LoadPublicKeyCall ''cosign.pub''])
   \<and> Stat testEnv ''sig.raw'' = None \<and> ReadFile testEnv (Clean testEnv ''sig.raw'') = Inr ''hi''
   \<and> readBlob testEnv ''msg'' = (Ok ''blob'', [ReadFileCall ''msg''])
   \<and> (\<exists>s. fileSignature ''hi'' = Inr s
         \<and> VerifyCall (OtherPublicKey ''cosign.pub'') ''blob'' s
             \<in> set (snd (VerifyBlobCmd testEnv ''cosign.pub'' [] [] ''sig.raw'' ''msg'')))
   \<and> Stat testEnv ''locked'' = Some (PathError ''stat'' ''locked'' EACCES)
   \<and> \<not> IsNotExist (PathError ''stat'' ''locked'' EACCES)
   \<and> VerifyBlobCmd testEnv ''cosign.pub'' [] [] ''locked'' ''msg'' =
       (Err (PathError ''stat'' ''locked'' EACCES),
        [LoadPublicKeyCall ''cosign.pub''] @ [StatCall ''locked''])"
proof -
  note sel = testEnv_stages2(1)
  have st: "Stat testEnv ''sig.raw'' = None \<and> ReadFile testEnv (Clean testEnv ''sig.raw'') = Inr ''hi''"
    by (simp add: testEnv_def)
  have rb: "readBlob testEnv ''msg'' = (Ok ''blob'', [ReadFileCall ''msg''])"
    by (rule testEnv_stages(4))
  have lk: "Stat testEnv ''locked'' = Some (PathError ''stat'' ''locked'' EACCES)
      \<and> \<not> IsNotExist (PathError ''stat'' ''locked'' EACCES)"
    by (simp add: testEnv_def)
  have runA: "VerifyBlobCmd testEnv ''cosign.pub'' [] [] ''sig.raw'' ''msg'' =
      (fst (VerifyBlobCmd testEnv ''cosign.pub'' [] [] ''sig.raw'' ''msg''),
       snd (VerifyBlobCmd testEnv ''cosign.pub'' [] [] ''sig.raw'' ''msg''))"
    by simp
  have runB: "VerifyBlobCmd testEnv ''cosign.pub'' [] [] ''locked'' ''msg'' =
      (fst (VerifyBlobCmd testEnv ''cosign.pub'' [] [] ''locked'' ''msg''),
       snd (VerifyBlobCmd testEnv ''cosign.pub'' [] [] ''locked'' ''msg''))"
    by simp
  from VerifyBlobCmd_signature_reference [OF sel runA, of "''hi''"] st rb
  have A: "\<exists>s. fileSignature ''hi'' = Inr s
         \<and> VerifyCall (OtherPublicKey ''cosign.pub'') ''blob'' s
             \<in> set (snd (VerifyBlobCmd testEnv ''cosign.pub'' [] [] ''sig.raw'' ''msg''))"
    by blast
  from VerifyBlobCmd_signature_reference [OF sel runB, of _ "PathError ''stat'' ''locked'' EACCES"] lk
  have "fst (VerifyBlobCmd testEnv ''cosign.pub'' [] [] ''locked'' ''msg'')
          = Err (PathError ''stat'' ''locked'' EACCES)
      \<and> snd (VerifyBlobCmd testEnv ''cosign.pub'' [] [] ''locked'' ''msg'')
          = [LoadPublicKeyCall ''cosign.pub''] @ [StatCall ''locked'']"
    by blast
  then have B: "VerifyBlobCmd testEnv ''cosign.pub'' [] [] ''locked'' ''msg'' =
       (Err (PathError ''stat'' ''locked'' EACCES),
        [LoadPublicKeyCall ''cosign.pub''] @ [StatCall ''locked''])"
    by (metis prod.collapse)
  from sel st rb A lk B show ?thesis by blast
qed

section \<open>\<open>LoadPrivateKey\<close>\<close>

text \<open>
  C3: \<open>LoadPrivateKey\<close> returns a key exactly when the input holds a PEM block of
  type \<open>ENCRYPTED COSIGN PRIVATE KEY\<close>, decryption of its bytes with the passphrase
  succeeds and the PKCS8 structure parses to an ECDSA private key. When decryption of
  such a block fails (a wrong passphrase), the result is that error wrapped as
  \<open>decrypt\<close>; and for every input, if decryption does not succeed, no key comes back.
\<close>

theorem LoadPrivateKey_fails_closed:
  "(LoadPrivateKey lib key pass = Inr k \<longleftrightarrow>
      (\<exists>p x epk. pemDecode lib key = Some p \<and> Type p = pemType
         \<and> Decrypt lib (Bytes p) pass = Inr x
         \<and> ParsePKCS8PrivateKey lib x = Inr (EcdsaPrivKey epk)
         \<and> k = WithECDSAKey lib epk))
   \<and> (pemDecode lib key = Some p \<and> Type p = pemType \<and> Decrypt lib (Bytes p) pass = Inl err
        \<longrightarrow> LoadPrivateKey lib key pass = Inl (WithMessage err ''decrypt''))
   \<and> ((\<forall>p. pemDecode lib key = Some p \<longrightarrow> isl (Decrypt lib (Bytes p) pass))
        \<longrightarrow> isl (LoadPrivateKey lib key pass))"
  by (auto simp add: LoadPrivateKey_def split: option.splits sum.splits crypto_PrivateKey.splits)

theorem LoadPrivateKey_fails_closed_witness:
  "LoadPrivateKey testLib ''cosign.key'' ''hunter2'' = Inr testKey
   \<and> LoadPrivateKey testLib ''cosign.key'' ''letmein''
       = Inl (WithMessage (ErrorString ''encrypted: decryption failed'') ''decrypt'')
   \<and> isl (LoadPrivateKey testLib ''not a pem file'' ''letmein'')"
  using LoadPrivateKey_fails_closed [of testLib "''cosign.key''" "''hunter2''" testKey]
    LoadPrivateKey_fails_closed [of testLib "''cosign.key''" "''letmein''" _
       "\<lparr>Type = pemType, Bytes = ''ciphertext''\<rparr>" "ErrorString ''encrypted: decryption failed''"]
    LoadPrivateKey_fails_closed [of testLib "''not a pem file''" "''letmein''"]
  by (simp add: testLib_def)

section \<open>\<open>ImageSignature\<close>\<close>

text \<open>
  C9: \<open>ImageSignature\<close> returns an error exactly when marshalling the payload fails
  or the signer fails on the marshalled payload; it returns a payload and a signature
  exactly when the payload is what marshalling gave and the signature is what the
  signer gave for these very bytes.
\<close>

theorem ImageSignature_result:
  "(isl (ImageSignature marshal signer img ann) \<longleftrightarrow>
      isl (marshal \<lparr>Img = img, Annotations = ann\<rparr>)
      \<or> (\<exists>payload. marshal \<lparr>Img = img, Annotations = ann\<rparr> = Inr payload \<and> isl (signer payload)))
   \<and> (ImageSignature marshal signer img ann = Inr (payload, signature) \<longleftrightarrow>
        marshal \<lparr>Img = img, Annotations = ann\<rparr> = Inr payload \<and> signer payload = Inr signature)"
  by (auto simp add: ImageSignature_def PayloadSignature_def Let_def split: sum.splits)

theorem ImageSignature_result_witness:
  "ImageSignature testMarshal testSigner testImg fmempty = Inr (''sha256:abc'', ''sig:sha256:abc'')
   \<and> \<not> isl (ImageSignature testMarshal testSigner testImg fmempty)"
  using ImageSignature_result [of testMarshal testSigner testImg fmempty "''sha256:abc''" "''sig:sha256:abc''"]
  by (simp add: testMarshal_def testSigner_def testImg_def)

section \<open>The payload codec: round trip and determinism\<close>

























end
